theory Spec2Isabelle
  imports Complex_Main "HOL-Library.Multiset" "HOL-Library.Char_ord" "HOL-Library.List_Lexorder"
begin

section \<open>Team colour lookup (js/teamColors.js)\<close>

text \<open>
  \<^verbatim>\<open>MLB_TEAM_COLORS\<close> is an object literal: thirty teams and the reserved key
  \<^verbatim>\<open>"Unknown Team"\<close>, each mapped to a pair of colour strings.
\<close>

record team_colors =
  primary :: string
  secondary :: string

definition MLB_TEAM_COLORS :: "(string \<times> team_colors) list" where
  "MLB_TEAM_COLORS =
   [(''Baltimore Orioles'', \<lparr>primary = ''#DF4601'', secondary = ''#000000''\<rparr>),
    (''Boston Red Sox'', \<lparr>primary = ''#BD3039'', secondary = ''#0C2340''\<rparr>),
    (''New York Yankees'', \<lparr>primary = ''#0C2340'', secondary = ''#FFFFFF''\<rparr>),
    (''Tampa Bay Rays'', \<lparr>primary = ''#092C5C'', secondary = ''#8FBCE6''\<rparr>),
    (''Toronto Blue Jays'', \<lparr>primary = ''#134A8E'', secondary = ''#1D2D5C''\<rparr>),
    (''Chicago White Sox'', \<lparr>primary = ''#27251F'', secondary = ''#C4CED4''\<rparr>),
    (''Cleveland Guardians'', \<lparr>primary = ''#00385D'', secondary = ''#E50022''\<rparr>),
    (''Detroit Tigers'', \<lparr>primary = ''#0C2340'', secondary = ''#FA4616''\<rparr>),
    (''Kansas City Royals'', \<lparr>primary = ''#004687'', secondary = ''#BD9B60''\<rparr>),
    (''Minnesota Twins'', \<lparr>primary = ''#002B5C'', secondary = ''#D31145''\<rparr>),
    (''Houston Astros'', \<lparr>primary = ''#002D62'', secondary = ''#EB6E1F''\<rparr>),
    (''Los Angeles Angels'', \<lparr>primary = ''#BA0021'', secondary = ''#003263''\<rparr>),
    (''Oakland Athletics'', \<lparr>primary = ''#003831'', secondary = ''#EFB21E''\<rparr>),
    (''Seattle Mariners'', \<lparr>primary = ''#0C2C56'', secondary = ''#005C5C''\<rparr>),
    (''Texas Rangers'', \<lparr>primary = ''#003278'', secondary = ''#C0111F''\<rparr>),
    (''Atlanta Braves'', \<lparr>primary = ''#CE1141'', secondary = ''#13274F''\<rparr>),
    (''Miami Marlins'', \<lparr>primary = ''#00A3E0'', secondary = ''#FF6600''\<rparr>),
    (''New York Mets'', \<lparr>primary = ''#002D72'', secondary = ''#FF5910''\<rparr>),
    (''Philadelphia Phillies'', \<lparr>primary = ''#E81828'', secondary = ''#002D72''\<rparr>),
    (''Washington Nationals'', \<lparr>primary = ''#AB0003'', secondary = ''#14225A''\<rparr>),
    (''Chicago Cubs'', \<lparr>primary = ''#0E3386'', secondary = ''#CC3433''\<rparr>),
    (''Cincinnati Reds'', \<lparr>primary = ''#C6011F'', secondary = ''#000000''\<rparr>),
    (''Milwaukee Brewers'', \<lparr>primary = ''#0A2351'', secondary = ''#B6922E''\<rparr>),
    (''Pittsburgh Pirates'', \<lparr>primary = ''#27251F'', secondary = ''#FDB827''\<rparr>),
    (''St. Louis Cardinals'', \<lparr>primary = ''#C41E3A'', secondary = ''#0C2340''\<rparr>),
    (''Arizona Diamondbacks'', \<lparr>primary = ''#A71930'', secondary = ''#E3D4AD''\<rparr>),
    (''Colorado Rockies'', \<lparr>primary = ''#33006F'', secondary = ''#C4CED4''\<rparr>),
    (''Los Angeles Dodgers'', \<lparr>primary = ''#005A9C'', secondary = ''#FFFFFF''\<rparr>),
    (''San Diego Padres'', \<lparr>primary = ''#2F241D'', secondary = ''#FFC425''\<rparr>),
    (''San Francisco Giants'', \<lparr>primary = ''#FD5A1E'', secondary = ''#27251F''\<rparr>),
    (''Unknown Team'', \<lparr>primary = ''#666666'', secondary = ''#CCCCCC''\<rparr>)]"

text \<open>
  The table is a plain object, so \<^verbatim>\<open>MLB_TEAM_COLORS[teamName]\<close> reads an own property
  first and then the prototype chain. These are the property names every plain object
  inherits from \<^verbatim>\<open>Object.prototype\<close> (the standard ones and those of Annex B); each is
  a function, or for \<^verbatim>\<open>__proto__\<close> the prototype object itself: a truthy value that has
  no \<^verbatim>\<open>primary\<close> and no \<^verbatim>\<open>secondary\<close> property.
\<close>

definition object_prototype_names :: "string list" where
  "object_prototype_names =
   [''constructor'', ''hasOwnProperty'', ''isPrototypeOf'', ''propertyIsEnumerable'',
    ''toLocaleString'', ''toString'', ''valueOf'', ''__proto__'',
    ''__defineGetter__'', ''__defineSetter__'', ''__lookupGetter__'', ''__lookupSetter__'']"

text \<open>What a lookup in the table can evaluate to.\<close>

datatype colors_value =
    Entry team_colors   \<comment> \<open>an entry of the table: a \<^verbatim>\<open>{primary, secondary}\<close> pair\<close>
  | Inherited string    \<comment> \<open>the member of \<^verbatim>\<open>Object.prototype\<close> of that name\<close>

text \<open>
  \<^verbatim>\<open>MLB_TEAM_COLORS[teamName]\<close>: \<open>None\<close> is \<^verbatim>\<open>undefined\<close>.
\<close>

definition table_get :: "string \<Rightarrow> colors_value option" where
  "table_get teamName =
     (case map_of MLB_TEAM_COLORS teamName of
        Some c \<Rightarrow> Some (Entry c)
      | None \<Rightarrow> if teamName \<in> set object_prototype_names
                then Some (Inherited teamName) else None)"

text \<open>
  \<^verbatim>\<open>return MLB_TEAM_COLORS[teamName] || MLB_TEAM_COLORS["Unknown Team"];\<close>
  Every value \<open>table_get\<close> finds is an object or a function, hence truthy; only
  \<^verbatim>\<open>undefined\<close> selects the right operand.
\<close>

definition getTeamColors :: "string \<Rightarrow> colors_value option" where
  "getTeamColors teamName =
     (case table_get teamName of
        Some v \<Rightarrow> Some v
      | None \<Rightarrow> table_get ''Unknown Team'')"

text \<open>
  The two arrow functions of the \<^verbatim>\<open>BattingVisualizer\<close> constructor:
  \<^verbatim>\<open>colors ? colors.primary : '#666666'\<close>. Reading \<^verbatim>\<open>primary\<close> from an inherited
  member gives \<^verbatim>\<open>undefined\<close>, here \<open>None\<close>.
\<close>

definition getTeamColor :: "string \<Rightarrow> string option" where
  "getTeamColor teamName =
     (case getTeamColors teamName of
        Some (Entry c) \<Rightarrow> Some (primary c)
      | Some (Inherited _) \<Rightarrow> None
      | None \<Rightarrow> Some ''#666666'')"

definition getTeamSecondaryColor :: "string \<Rightarrow> string option" where
  "getTeamSecondaryColor teamName =
     (case getTeamColors teamName of
        Some (Entry c) \<Rightarrow> Some (secondary c)
      | Some (Inherited _) \<Rightarrow> None
      | None \<Rightarrow> Some ''#CCCCCC'')"

definition fallback_colors :: team_colors where
  "fallback_colors = \<lparr>primary = ''#666666'', secondary = ''#CCCCCC''\<rparr>"


section \<open>JavaScript numbers and strings\<close>

text \<open>
  A JavaScript number is \<^verbatim>\<open>NaN\<close>, one of the two infinities, or a finite value. Finite
  values are modelled as reals. Addition and division round their result to binary64
  (\<open>round64\<close> below); literals and the values parsed from strings are taken at their
  decimal value.
\<close>

datatype jsnum = NaN | PInf | NInf | Fin real

fun js_lt :: "jsnum \<Rightarrow> jsnum \<Rightarrow> bool" where
  "js_lt NaN _ = False"
| "js_lt _ NaN = False"
| "js_lt PInf _ = False"
| "js_lt _ PInf = True"
| "js_lt _ NInf = False"
| "js_lt NInf _ = True"
| "js_lt (Fin a) (Fin b) = (a < b)"

definition js_gt :: "jsnum \<Rightarrow> jsnum \<Rightarrow> bool" where
  "js_gt a b = js_lt b a"

text \<open>\<^verbatim>\<open>a >= b\<close> is false as soon as an operand is \<^verbatim>\<open>NaN\<close>.\<close>

definition js_ge :: "jsnum \<Rightarrow> jsnum \<Rightarrow> bool" where
  "js_ge a b = (a \<noteq> NaN \<and> b \<noteq> NaN \<and> \<not> js_lt a b)"

fun js_neg :: "jsnum \<Rightarrow> jsnum" where
  "js_neg NaN = NaN"
| "js_neg PInf = NInf"
| "js_neg NInf = PInf"
| "js_neg (Fin a) = Fin (- a)"

text \<open>
  Rounding to binary64, the one rounding of every arithmetic operation: to the nearest
  multiple of the quantum \<^verbatim>\<open>2^(e-52)\<close>, where \<open>e\<close> is the binary exponent of the value and
  at least \<open>-1022\<close> (below that the numbers are subnormal); ties go to the even multiple;
  a magnitude that is, or rounds to, \<^verbatim>\<open>2^1024\<close> or more overflows to an infinity.
\<close>

definition pow2 :: "int \<Rightarrow> real" where
  "pow2 e = (if 0 \<le> e then 2 ^ nat e else 1 / 2 ^ nat (- e))"

text \<open>
  The binary exponent of a positive number, the integer part of its logarithm to base 2:
  for numbers from 1 on, and for numbers below 1.
\<close>

function log2_ge1 :: "real \<Rightarrow> int" where
  "log2_ge1 x = (if 2 \<le> x then log2_ge1 (x / 2) + 1 else 0)"
  by pat_completeness auto
termination
proof (relation "measure (\<lambda>x. nat \<lfloor>x\<rfloor>)")
  show "wf (measure (\<lambda>x::real. nat \<lfloor>x\<rfloor>))" by simp
next
  fix x :: real assume "2 \<le> x"
  then have "\<lfloor>x / 2\<rfloor> < \<lfloor>x\<rfloor>" by linarith
  moreover have "0 < \<lfloor>x\<rfloor>" using \<open>2 \<le> x\<close> by linarith
  ultimately show "(x / 2, x) \<in> measure (\<lambda>x. nat \<lfloor>x\<rfloor>)" by simp
qed

function log2_lt1 :: "real \<Rightarrow> int" where
  "log2_lt1 x = (if 0 < x \<and> x < 1 then log2_lt1 (x * 2) - 1 else 0)"
  by pat_completeness auto
termination
proof (relation "measure (\<lambda>x. nat \<lceil>1 / x\<rceil>)")
  show "wf (measure (\<lambda>x::real. nat \<lceil>1 / x\<rceil>))" by simp
next
  fix x :: real assume a: "0 < x \<and> x < 1"
  then have y: "1 < 1 / x" by simp
  have e: "1 / (x * 2) = (1 / x) / 2" by simp
  have c: "\<lceil>y / 2\<rceil> < \<lceil>y\<rceil> \<and> 0 < \<lceil>y\<rceil>" if "1 < y" for y :: real
  proof -
    have 1: "y \<le> of_int \<lceil>y\<rceil>" by (rule le_of_int_ceiling)
    have 2: "2 \<le> \<lceil>y\<rceil>" using that by (simp add: le_ceiling_iff)
    then have 3: "(2::real) \<le> of_int \<lceil>y\<rceil>" by linarith
    have "y / 2 \<le> of_int \<lceil>y\<rceil> - 1" using 1 3 by linarith
    then have "\<lceil>y / 2\<rceil> < \<lceil>y\<rceil>" by (simp add: ceiling_less_iff)
    then show ?thesis using 2 by simp
  qed
  have "\<lceil>(1 / x) / 2\<rceil> < \<lceil>1 / x\<rceil>" using c[OF y] by blast
  moreover have "0 < \<lceil>1 / x\<rceil>" using c[OF y] by blast
  ultimately show "(x * 2, x) \<in> measure (\<lambda>x. nat \<lceil>1 / x\<rceil>)"
    by (simp add: e del: divide_divide_eq_left)
qed

declare log2_ge1.simps [simp del] log2_lt1.simps [simp del]

definition exponent64 :: "real \<Rightarrow> int" where
  "exponent64 x = max (- 1022) (if 1 \<le> \<bar>x\<bar> then log2_ge1 \<bar>x\<bar> else log2_lt1 \<bar>x\<bar>)"

definition round_half_even :: "real \<Rightarrow> int" where
  "round_half_even n =
     (let f = \<lfloor>n\<rfloor>; d = n - real_of_int f
      in if d < 1 / 2 then f else if 1 / 2 < d then f + 1 else if even f then f else f + 1)"

definition round64 :: "real \<Rightarrow> jsnum" where
  "round64 x =
     (if 2 ^ 1024 \<le> \<bar>x\<bar> then (if 0 < x then PInf else NInf)
      else
        (let q = pow2 (exponent64 x - 52);
             y = real_of_int (round_half_even (x / q)) * q
         in if 2 ^ 1024 \<le> \<bar>y\<bar> then (if 0 < x then PInf else NInf) else Fin y))"

fun js_add :: "jsnum \<Rightarrow> jsnum \<Rightarrow> jsnum" where
  "js_add NaN _ = NaN"
| "js_add _ NaN = NaN"
| "js_add PInf NInf = NaN"
| "js_add NInf PInf = NaN"
| "js_add PInf _ = PInf"
| "js_add _ PInf = PInf"
| "js_add NInf _ = NInf"
| "js_add _ NInf = NInf"
| "js_add (Fin a) (Fin b) = round64 (a + b)"

text \<open>
  \<^verbatim>\<open>a - b\<close>, which the program uses only in the comparator of \<^verbatim>\<open>sort\<close>, where only the
  sign of the result is read. Rounding keeps the sign of the difference of two binary64
  numbers (their difference is zero only when they are equal), so the difference of
  two finite values is left unrounded.
\<close>

definition js_sub :: "jsnum \<Rightarrow> jsnum \<Rightarrow> jsnum" where
  "js_sub a b =
     (case (a, b) of
        (Fin x, Fin y) \<Rightarrow> Fin (x - y)
      | _ \<Rightarrow> js_add a (js_neg b))"

text \<open>
  Division by an array length: the divisor is a natural number; \<^verbatim>\<open>0 / 0\<close> is
  \<^verbatim>\<open>NaN\<close> and \<^verbatim>\<open>x / 0\<close> an infinity.
\<close>

fun js_div_len :: "jsnum \<Rightarrow> nat \<Rightarrow> jsnum" where
  "js_div_len NaN _ = NaN"
| "js_div_len PInf _ = PInf"
| "js_div_len NInf _ = NInf"
| "js_div_len (Fin a) n =
     (if n = 0 then (if a = 0 then NaN else if 0 < a then PInf else NInf)
      else round64 (a / real n))"

text \<open>
  \<^verbatim>\<open>Array.prototype.sort(comparefn)\<close>. A comparator result that is \<^verbatim>\<open>NaN\<close> counts as
  \<open>0\<close>; the sort is stable. For a consistent comparator the standard fixes the result,
  and a stable insertion sort computes it: \<open>x\<close> goes behind \<open>y\<close> only when
  \<open>comparefn x y > 0\<close>. (Where the comparator is not consistent, as it can be with a
  \<^verbatim>\<open>NaN\<close> among the keys, the standard leaves the order to the engine.)
\<close>

fun js_insert :: "('a \<Rightarrow> 'a \<Rightarrow> jsnum) \<Rightarrow> 'a \<Rightarrow> 'a list \<Rightarrow> 'a list" where
  "js_insert cmp x [] = [x]"
| "js_insert cmp x (y # ys) =
     (if js_gt (cmp x y) (Fin 0) then y # js_insert cmp x ys else x # y # ys)"

fun js_sort :: "('a \<Rightarrow> 'a \<Rightarrow> jsnum) \<Rightarrow> 'a list \<Rightarrow> 'a list" where
  "js_sort cmp [] = []"
| "js_sort cmp (x # xs) = js_insert cmp x (js_sort cmp xs)"

text \<open>
  Strings are lists of 8-bit characters (the Latin-1 range of the program's UTF-16
  strings).
\<close>

definition startsWith :: "string \<Rightarrow> string \<Rightarrow> bool" where
  "startsWith s p = (take (length p) s = p)"


text \<open>\<^verbatim>\<open>s.slice(i, j)\<close> for \<open>0 \<le> i \<le> j\<close>: indices beyond the end are clamped.\<close>

definition slice :: "string \<Rightarrow> nat \<Rightarrow> nat \<Rightarrow> string" where
  "slice s i j = take (j - i) (drop i s)"

definition is_digit :: "char \<Rightarrow> bool" where
  "is_digit c = (CHR ''0'' \<le> c \<and> c \<le> CHR ''9'')"

text \<open>White space that \<^verbatim>\<open>parseInt\<close> and \<^verbatim>\<open>parseFloat\<close> skip: TAB, LF, VT, FF, CR, SP, NBSP.\<close>

definition is_space :: "char \<Rightarrow> bool" where
  "is_space c = (of_char c \<in> {9, 10, 11, 12, 13, 32, 160 :: nat})"

text \<open>The value of a character as a digit of a radix up to 36.\<close>

definition digit_val :: "char \<Rightarrow> nat option" where
  "digit_val c =
     (if CHR ''0'' \<le> c \<and> c \<le> CHR ''9'' then Some (of_char c - 48)
      else if CHR ''a'' \<le> c \<and> c \<le> CHR ''z'' then Some (of_char c - 87)
      else if CHR ''A'' \<le> c \<and> c \<le> CHR ''Z'' then Some (of_char c - 55)
      else None)"

definition is_radix_digit :: "nat \<Rightarrow> char \<Rightarrow> bool" where
  "is_radix_digit radix c = (case digit_val c of Some d \<Rightarrow> d < radix | None \<Rightarrow> False)"

definition digits_value :: "nat \<Rightarrow> string \<Rightarrow> nat" where
  "digits_value radix ds = foldl (\<lambda>acc c. acc * radix + the (digit_val c)) 0 ds"

text \<open>
  \<^verbatim>\<open>parseInt(s, radix)\<close> on a string, for radix 10 or 16: leading white space, a sign, for
  radix 16 an optional \<^verbatim>\<open>0x\<close>, then the longest run of digits; \<open>None\<close> is \<^verbatim>\<open>NaN\<close>.
\<close>

definition parseInt_str :: "string \<Rightarrow> nat \<Rightarrow> int option" where
  "parseInt_str s radix =
     (let t = dropWhile is_space s;
          neg = (t \<noteq> [] \<and> hd t = CHR ''-'');
          u = (if t \<noteq> [] \<and> (hd t = CHR ''-'' \<or> hd t = CHR ''+'') then tl t else t);
          v = (if radix = 16 \<and> (take 2 u = ''0x'' \<or> take 2 u = ''0X'') then drop 2 u else u);
          ds = takeWhile (is_radix_digit radix) v
      in if ds = [] then None
         else Some (if neg then - int (digits_value radix ds) else int (digits_value radix ds)))"

text \<open>Number to string, for the integers \<open>parseInt\<close> returns (and \<^verbatim>\<open>NaN\<close>).\<close>

definition digit_char :: "nat \<Rightarrow> char" where
  "digit_char d = ''0123456789'' ! d"

function show_nat :: "nat \<Rightarrow> string" where
  "show_nat n =
     (if n < 10 then [digit_char n] else show_nat (n div 10) @ [digit_char (n mod 10)])"
  by pat_completeness auto
termination
  by (relation "measure (\<lambda>n. n)") auto

declare show_nat.simps [simp del]

definition show_int_opt :: "int option \<Rightarrow> string" where
  "show_int_opt v =
     (case v of None \<Rightarrow> ''NaN''
      | Some i \<Rightarrow> if i < 0 then CHR ''-'' # show_nat (nat (- i)) else show_nat (nat i))"

section \<open>Fading a colour (BattingVisualizer.fadeColor)\<close>

text \<open>
  \<^verbatim>\<open>color.replace(/[\d\.]+\)$/, '0.2)')\<close>: the match is the longest run of digits and dots
  that stands directly before a closing parenthesis at the end of the string; without
  one the string is returned as it is.
\<close>

definition is_digit_or_dot :: "char \<Rightarrow> bool" where
  "is_digit_or_dot c = (is_digit c \<or> c = CHR ''.'')"

definition opacity_match :: "string \<Rightarrow> bool" where
  "opacity_match s =
     (case rev s of
        [] \<Rightarrow> False
      | c # rest \<Rightarrow> c = CHR '')'' \<and> takeWhile is_digit_or_dot rest \<noteq> [])"

definition replace_opacity :: "string \<Rightarrow> string" where
  "replace_opacity s =
     (if opacity_match s
      then rev (dropWhile is_digit_or_dot (tl (rev s))) @ ''0.2)''
      else s)"

text \<open>\<^verbatim>\<open>s.replace(')', ', 0.2)')\<close>: only the first closing parenthesis is replaced.\<close>

definition replace_first_paren :: "string \<Rightarrow> string" where
  "replace_first_paren s =
     (case dropWhile (\<lambda>c. c \<noteq> CHR '')'') s of
        [] \<Rightarrow> s
      | _ # rest \<Rightarrow> takeWhile (\<lambda>c. c \<noteq> CHR '')'') s @ '', 0.2)'' @ rest)"

text \<open>
  \<^verbatim>\<open>s.replace('rgb', 'rgba')\<close> is applied only to strings that start with \<^verbatim>\<open>rgb\<close>, where
  the first occurrence is at index 0.
\<close>

definition replace_rgb :: "string \<Rightarrow> string" where
  "replace_rgb s = (if startsWith s ''rgb'' then ''rgba'' @ drop 3 s else s)"

definition fadeColor :: "string \<Rightarrow> string" where
  "fadeColor color =
     (if startsWith color ''#'' then
        (let r = parseInt_str (slice color 1 3) 16;
             g = parseInt_str (slice color 3 5) 16;
             b = parseInt_str (slice color 5 7) 16
         in ''rgba('' @ show_int_opt r @ '', '' @ show_int_opt g @ '', '' @ show_int_opt b
              @ '', 0.2)'')
      else if startsWith color ''rgb'' then
        (if startsWith color ''rgba'' then replace_opacity color
         else replace_rgb (replace_first_paren color))
      else color)"

text \<open>
  The functional notation \<^verbatim>\<open>rgb(...)\<close>: the string opens with \<^verbatim>\<open>rgb(\<close> and its only
  closing parenthesis is its last character.
\<close>

definition is_rgb_call :: "string \<Rightarrow> bool" where
  "is_rgb_call c =
     (startsWith c ''rgb('' \<and> 4 < length c \<and> last c = CHR '')'' \<and> CHR '')'' \<notin> set (butlast c))"

text \<open>
  The components of a functional notation: \<^verbatim>\<open>s.split(',')\<close>.
\<close>

fun split_commas :: "string \<Rightarrow> string list" where
  "split_commas [] = [[]]"
| "split_commas (c # cs) =
     (if c = CHR '','' then [] # split_commas cs
      else (c # hd (split_commas cs)) # tl (split_commas cs))"

definition trim_left :: "string \<Rightarrow> string" where
  "trim_left s = dropWhile (\<lambda>c. c = CHR '' '') s"

text \<open>
  A string carries the opacity 0.2 when it is the notation \<^verbatim>\<open>rgba(r, g, b, a)\<close> of four
  components whose fourth, the alpha value, is \<^verbatim>\<open>0.2\<close>.
\<close>

definition carries_opacity :: "string \<Rightarrow> bool" where
  "carries_opacity s =
     (startsWith s ''rgba('' \<and> 5 < length s \<and> last s = CHR '')''
      \<and> (let body = drop 5 (butlast s)
         in CHR ''('' \<notin> set body \<and> CHR '')'' \<notin> set body
            \<and> length (split_commas body) = 4
            \<and> trim_left (last (split_commas body)) = ''0.2''))"

text \<open>
  The colour strings on which fading is to set the opacity: \<^verbatim>\<open>#rrggbb\<close>; \<^verbatim>\<open>rgb(r, g, b)\<close>
  of three components; \<^verbatim>\<open>rgba(r, g, b, a)\<close> of four components whose alpha value is
  written with digits and dots only.
\<close>

definition is_hex6 :: "string \<Rightarrow> bool" where
  "is_hex6 c = (length c = 7 \<and> hd c = CHR ''#'' \<and> list_all (is_radix_digit 16) (tl c))"

definition is_rgb_triple :: "string \<Rightarrow> bool" where
  "is_rgb_triple c =
     (is_rgb_call c \<and> CHR ''('' \<notin> set (drop 4 (butlast c))
      \<and> length (split_commas (drop 4 (butlast c))) = 3)"

definition is_rgba_plain :: "string \<Rightarrow> bool" where
  "is_rgba_plain c =
     (startsWith c ''rgba('' \<and> 5 < length c \<and> last c = CHR '')''
      \<and> (let body = drop 5 (butlast c)
         in CHR ''('' \<notin> set body \<and> CHR '')'' \<notin> set body
            \<and> length (split_commas body) = 4
            \<and> trim_left (last (split_commas body)) \<noteq> []
            \<and> list_all is_digit_or_dot (trim_left (last (split_commas body)))))"

section \<open>JSON values as the client reads them\<close>

text \<open>
  A response body is a JSON value. An object is the list of its own properties.
\<close>

datatype jsval =
    JUndefined
  | JNull
  | JBool bool
  | JNum jsnum
  | JStr string
  | JArr "jsval list"
  | JObj "(string \<times> jsval) list"

datatype error = TypeError | Error string

fun truthy :: "jsval \<Rightarrow> bool" where
  "truthy JUndefined = False"
| "truthy JNull = False"
| "truthy (JBool b) = b"
| "truthy (JNum n) = (n \<noteq> NaN \<and> n \<noteq> Fin 0)"
| "truthy (JStr s) = (s \<noteq> [])"
| "truthy (JArr _) = True"
| "truthy (JObj _) = True"

text \<open>\<^verbatim>\<open>a || b\<close>\<close>

definition js_or :: "jsval \<Rightarrow> jsval \<Rightarrow> jsval" where
  "js_or a b = (if truthy a then a else b)"

text \<open>
  \<^verbatim>\<open>v.p\<close> for a receiver other than \<^verbatim>\<open>null\<close> and \<^verbatim>\<open>undefined\<close>, and for the property
  names the client reads: an own property of an object, the \<^verbatim>\<open>length\<close> of an array or
  a string, \<^verbatim>\<open>undefined\<close> otherwise (none of the names is inherited from a prototype).
\<close>

fun read_prop :: "jsval \<Rightarrow> string \<Rightarrow> jsval" where
  "read_prop (JObj kvs) p = (case map_of kvs p of Some v \<Rightarrow> v | None \<Rightarrow> JUndefined)"
| "read_prop (JArr xs) p = (if p = ''length'' then JNum (Fin (real (length xs))) else JUndefined)"
| "read_prop (JStr s) p = (if p = ''length'' then JNum (Fin (real (length s))) else JUndefined)"
| "read_prop _ p = JUndefined"

text \<open>Reading a property of \<^verbatim>\<open>null\<close> or \<^verbatim>\<open>undefined\<close> throws a \<^verbatim>\<open>TypeError\<close>.\<close>

definition get :: "jsval \<Rightarrow> string \<Rightarrow> error + jsval" where
  "get v p = (if v = JUndefined \<or> v = JNull then Inl TypeError else Inr (read_prop v p))"

text \<open>\<^verbatim>\<open>v[0]\<close> for a receiver other than \<^verbatim>\<open>null\<close> and \<^verbatim>\<open>undefined\<close>.\<close>

fun index0 :: "jsval \<Rightarrow> jsval" where
  "index0 (JArr xs) = (case xs of [] \<Rightarrow> JUndefined | x # _ \<Rightarrow> x)"
| "index0 (JStr s) = (case s of [] \<Rightarrow> JUndefined | c # _ \<Rightarrow> JStr [c])"
| "index0 (JObj kvs) = (case map_of kvs ''0'' of Some v \<Rightarrow> v | None \<Rightarrow> JUndefined)"
| "index0 _ = JUndefined"

definition rbind :: "error + 'a \<Rightarrow> ('a \<Rightarrow> error + 'b) \<Rightarrow> error + 'b" where
  "rbind m f = (case m of Inl e \<Rightarrow> Inl e | Inr x \<Rightarrow> f x)"

fun rmap :: "('a \<Rightarrow> error + 'b) \<Rightarrow> 'a list \<Rightarrow> error + 'b list" where
  "rmap f [] = Inr []"
| "rmap f (x # xs) = rbind (f x) (\<lambda>y. rbind (rmap f xs) (\<lambda>ys. Inr (y # ys)))"

subsection \<open>Numeric literals in strings\<close>

definition pow10 :: "int \<Rightarrow> real" where
  "pow10 e = (if 0 \<le> e then 10 ^ nat e else 1 / 10 ^ nat (- e))"

text \<open>
  An exponent part \<^verbatim>\<open>e\<close>, sign, digits; it belongs to the literal only when digits
  follow. Returns the exponent and the rest of the string.
\<close>

definition parse_exponent :: "string \<Rightarrow> int \<times> string" where
  "parse_exponent r =
     (if r \<noteq> [] \<and> (hd r = CHR ''e'' \<or> hd r = CHR ''E'') then
        (let r1 = tl r;
             neg = (r1 \<noteq> [] \<and> hd r1 = CHR ''-'');
             r2 = (if r1 \<noteq> [] \<and> (hd r1 = CHR ''-'' \<or> hd r1 = CHR ''+'') then tl r1 else r1);
             ds = takeWhile is_digit r2
         in if ds = [] then (0, r)
            else (if neg then - int (digits_value 10 ds) else int (digits_value 10 ds),
                  dropWhile is_digit r2))
      else (0, r))"

text \<open>
  The longest prefix that is an unsigned decimal literal of the string grammar
  (\<^verbatim>\<open>Infinity\<close>, \<^verbatim>\<open>12\<close>, \<^verbatim>\<open>12.\<close>, \<^verbatim>\<open>12.5\<close>, \<^verbatim>\<open>.5\<close>, each but the first with an optional
  exponent), with its value and the rest; \<open>None\<close> when there is no such prefix.
\<close>

definition parse_unsigned :: "string \<Rightarrow> (jsnum \<times> string) option" where
  "parse_unsigned s =
     (if startsWith s ''Infinity'' then Some (PInf, drop 8 s)
      else
        (let ip = takeWhile is_digit s;
             r1 = dropWhile is_digit s;
             dot = (r1 \<noteq> [] \<and> hd r1 = CHR ''.'');
             fp = (if dot then takeWhile is_digit (tl r1) else []);
             r2 = (if dot then dropWhile is_digit (tl r1) else r1)
         in if ip = [] \<and> fp = [] then None
            else (case parse_exponent r2 of
                    (e, r3) \<Rightarrow>
                      Some (Fin ((real (digits_value 10 ip)
                                  + real (digits_value 10 fp) / 10 ^ length fp) * pow10 e),
                            r3))))"

definition parse_signed :: "string \<Rightarrow> (jsnum \<times> string) option" where
  "parse_signed t =
     (let neg = (t \<noteq> [] \<and> hd t = CHR ''-'');
          u = (if t \<noteq> [] \<and> (hd t = CHR ''-'' \<or> hd t = CHR ''+'') then tl t else t)
      in case parse_unsigned u of
           None \<Rightarrow> None
         | Some (v, r) \<Rightarrow> Some (if neg then js_neg v else v, r))"

text \<open>\<^verbatim>\<open>parseFloat\<close> of a string: white space, then the longest literal prefix.\<close>

definition parseFloat_str :: "string \<Rightarrow> jsnum" where
  "parseFloat_str s =
     (case parse_signed (dropWhile is_space s) of None \<Rightarrow> NaN | Some (v, _) \<Rightarrow> v)"

text \<open>
  The conversion of a string to a number (as in \<^verbatim>\<open>"5" > 0\<close>): white space is trimmed at
  both ends, the empty string is \<open>0\<close>, and the whole rest must be one literal, decimal or
  \<^verbatim>\<open>0x\<close>, \<^verbatim>\<open>0o\<close>, \<^verbatim>\<open>0b\<close>.
\<close>

definition radix_literal :: "nat \<Rightarrow> string \<Rightarrow> jsnum" where
  "radix_literal radix ds =
     (if ds \<noteq> [] \<and> (\<forall>c \<in> set ds. is_radix_digit radix c)
      then Fin (real (digits_value radix ds)) else NaN)"

definition string_to_number :: "string \<Rightarrow> jsnum" where
  "string_to_number s =
     (let t = rev (dropWhile is_space (rev (dropWhile is_space s)))
      in if t = [] then Fin 0
         else if take 2 t = ''0x'' \<or> take 2 t = ''0X'' then radix_literal 16 (drop 2 t)
         else if take 2 t = ''0o'' \<or> take 2 t = ''0O'' then radix_literal 8 (drop 2 t)
         else if take 2 t = ''0b'' \<or> take 2 t = ''0B'' then radix_literal 2 (drop 2 t)
         else (case parse_signed t of
                 Some (v, []) \<Rightarrow> v
               | _ \<Rightarrow> NaN))"

subsection \<open>Conversions of arbitrary values\<close>

text \<open>
  An array converts to a string by joining the strings of its elements with commas
  (\<^verbatim>\<open>null\<close> and \<^verbatim>\<open>undefined\<close> give the empty string), an object to
  \<^verbatim>\<open>[object Object]\<close>, and a number to a literal that reads back as the same number.
  A comma is part of no numeric literal, so what a numeric conversion of an array sees
  is decided by the first element, and for the conversion of the whole string also by
  whether there is a second.
\<close>

fun to_number :: "jsval \<Rightarrow> jsnum" where
  "to_number JUndefined = NaN"
| "to_number JNull = Fin 0"
| "to_number (JBool b) = Fin (if b then 1 else 0)"
| "to_number (JNum n) = n"
| "to_number (JStr s) = string_to_number s"
| "to_number (JObj _) = NaN"
| "to_number (JArr []) = Fin 0"
| "to_number (JArr [v]) =
     (case v of
        JUndefined \<Rightarrow> Fin 0
      | JNull \<Rightarrow> Fin 0
      | JBool _ \<Rightarrow> NaN
      | _ \<Rightarrow> to_number v)"
| "to_number (JArr (v # w # _)) = NaN"

text \<open>\<^verbatim>\<open>v > 0\<close>\<close>

definition js_gt0 :: "jsval \<Rightarrow> bool" where
  "js_gt0 v = js_gt (to_number v) (Fin 0)"

fun parseFloat :: "jsval \<Rightarrow> jsnum" where
  "parseFloat (JNum n) = n"
| "parseFloat (JStr s) = parseFloat_str s"
| "parseFloat (JArr (v # _)) = parseFloat v"
| "parseFloat _ = NaN"

text \<open>
  \<^verbatim>\<open>parseInt(v, 10)\<close>. A number is first written as a string: in plain decimal notation
  when it is \<open>0\<close> or its magnitude is in \<open>[10\<^sup>-\<^sup>6, 10\<^sup>2\<^sup>1)\<close>, and then the integer part is
  read; in exponent notation otherwise, and then only the leading digit is read.
\<close>

function lead_ge1 :: "real \<Rightarrow> int" where
  "lead_ge1 x = (if 10 \<le> x then lead_ge1 (x / 10) else \<lfloor>x\<rfloor>)"
  by pat_completeness auto
termination
proof (relation "measure (\<lambda>x. nat \<lfloor>x\<rfloor>)")
  show "wf (measure (\<lambda>x::real. nat \<lfloor>x\<rfloor>))" by simp
next
  fix x :: real assume "10 \<le> x"
  then have "\<lfloor>x / 10\<rfloor> < \<lfloor>x\<rfloor>" by linarith
  moreover have "0 < \<lfloor>x\<rfloor>" using \<open>10 \<le> x\<close> by linarith
  ultimately show "(x / 10, x) \<in> measure (\<lambda>x. nat \<lfloor>x\<rfloor>)" by simp
qed

function lead_lt1 :: "real \<Rightarrow> int" where
  "lead_lt1 x = (if 0 < x \<and> x < 1 then lead_lt1 (x * 10) else \<lfloor>x\<rfloor>)"
  by pat_completeness auto
termination
proof (relation "measure (\<lambda>x. nat \<lceil>1 / x\<rceil>)")
  show "wf (measure (\<lambda>x::real. nat \<lceil>1 / x\<rceil>))" by simp
next
  fix x :: real assume a: "0 < x \<and> x < 1"
  then have y: "1 < 1 / x" by simp
  have e: "1 / (x * 10) = (1 / x) / 10" by simp
  have c: "\<lceil>y / 10\<rceil> < \<lceil>y\<rceil> \<and> 0 < \<lceil>y\<rceil>" if "1 < y" for y :: real
  proof -
    have 1: "y \<le> of_int \<lceil>y\<rceil>" by (rule le_of_int_ceiling)
    have 2: "2 \<le> \<lceil>y\<rceil>" using that by (simp add: le_ceiling_iff)
    then have 3: "(2::real) \<le> of_int \<lceil>y\<rceil>" by linarith
    have "y / 10 \<le> of_int \<lceil>y\<rceil> - 1" using 1 3 by linarith
    then have "\<lceil>y / 10\<rceil> < \<lceil>y\<rceil>" by (simp add: ceiling_less_iff)
    then show ?thesis using 2 by simp
  qed
  have "\<lceil>(1 / x) / 10\<rceil> < \<lceil>1 / x\<rceil>" using c[OF y] by blast
  moreover have "0 < \<lceil>1 / x\<rceil>" using c[OF y] by blast
  ultimately show "(x * 10, x) \<in> measure (\<lambda>x. nat \<lceil>1 / x\<rceil>)"
    by (simp add: e del: divide_divide_eq_left)
qed

declare lead_ge1.simps [simp del] lead_lt1.simps [simp del]

text \<open>The first significant digit of a positive number.\<close>

definition leading_digit :: "real \<Rightarrow> int" where
  "leading_digit x = (if 1 \<le> x then lead_ge1 x else lead_lt1 x)"

definition parseInt_num :: "jsnum \<Rightarrow> jsnum" where
  "parseInt_num n =
     (case n of
        Fin x \<Rightarrow>
          if x = 0 \<or> (1 / 10 ^ 6 \<le> \<bar>x\<bar> \<and> \<bar>x\<bar> < 10 ^ 21)
          then Fin (if x < 0 then - real_of_int \<lfloor>- x\<rfloor> else real_of_int \<lfloor>x\<rfloor>)
          else Fin (if x < 0 then - real_of_int (leading_digit (- x))
                    else real_of_int (leading_digit x))
      | _ \<Rightarrow> NaN)"

fun parseInt :: "jsval \<Rightarrow> jsnum" where
  "parseInt (JNum n) = parseInt_num n"
| "parseInt (JStr s) = (case parseInt_str s 10 of None \<Rightarrow> NaN | Some i \<Rightarrow> Fin (real_of_int i))"
| "parseInt (JArr (v # _)) = parseInt v"
| "parseInt _ = NaN"

section \<open>The statistics client (MlbStatsClient)\<close>

text \<open>
  A player record. The client copies \<open>name\<close> and \<open>team\<close> from the payload without
  converting them, so their type \<open>'s\<close> is \<open>jsval\<close> there; the visualizer and the
  summary panel work on records whose names are strings. \<open>pid\<close> is the field \<^verbatim>\<open>id\<close>.
\<close>

record 's player_record =
  pid :: jsval
  name :: 's
  team :: 's
  avg :: jsnum
  atBats :: jsnum
  hits :: jsnum
  homeRuns :: jsnum
  rbi :: jsnum

text \<open>
  What \<^verbatim>\<open>fetch(url)\<close> and \<^verbatim>\<open>response.json()\<close> can do: the transport rejects, or there is
  a response with its \<^verbatim>\<open>ok\<close> flag and a body that is JSON (\<open>Some\<close>) or not. The URL
  that \<^verbatim>\<open>buildUrl\<close> makes decides nothing further in the client and is left out; so are
  the status code and text that \<^verbatim>\<open>fetchData\<close> puts into its error message.
\<close>

datatype fetch_outcome = Rejected | Response bool "jsval option"

definition fetchData :: "fetch_outcome \<Rightarrow> error + jsval" where
  "fetchData f =
     (case f of
        Rejected \<Rightarrow> Inl (Error ''fetch failed'')
      | Response ok body \<Rightarrow>
          if \<not> ok then Inl (Error ''API error'')
          else (case body of None \<Rightarrow> Inl (Error ''invalid JSON'') | Some d \<Rightarrow> Inr d))"

definition mock_player :: "nat \<Rightarrow> string \<Rightarrow> string \<Rightarrow> real \<Rightarrow> nat \<Rightarrow> nat \<Rightarrow> nat \<Rightarrow> nat \<Rightarrow> jsval" where
  "mock_player i n t a ab h hr r =
     JObj [(''id'', JNum (Fin (real i))), (''name'', JStr n), (''team'', JStr t),
           (''avg'', JNum (Fin a)), (''atBats'', JNum (Fin (real ab))),
           (''hits'', JNum (Fin (real h))), (''homeRuns'', JNum (Fin (real hr))),
           (''rbi'', JNum (Fin (real r)))]"

text \<open>
  The thirty objects of \<^verbatim>\<open>playerBattingStats\<close> in \<^verbatim>\<open>getMockBattingStats\<close>. In the name of
  object 25 the source file holds the two characters U+221A and U+00B1, a mis-decoded
  \<open>n\<close> with tilde; the first is outside the 8-bit range of the strings here, and the
  intended letter (0xF1) stands in its place.
\<close>

definition mock_players :: "jsval list" where
  "mock_players =
   [mock_player 1 ''Luis Arraez'' ''San Diego Padres'' 0.329 432 142 8 52,
    mock_player 2 ''Freddie Freeman'' ''Los Angeles Dodgers'' 0.318 408 130 25 82,
    mock_player 3 ''Vladimir Guerrero Jr.'' ''Toronto Blue Jays'' 0.317 420 133 30 93,
    mock_player 4 ''Bobby Witt Jr.'' ''Kansas City Royals'' 0.315 425 134 23 75,
    mock_player 5 ''Corey Seager'' ''Texas Rangers'' 0.313 402 126 32 94,
    mock_player 6 ''Steven Kwan'' ''Cleveland Guardians'' 0.310 415 129 9 48,
    mock_player 7 ''Mookie Betts'' ''Los Angeles Dodgers'' 0.307 401 123 24 82,
    mock_player 8 ''Juan Soto'' ''New York Yankees'' 0.305 390 119 35 99,
    mock_player 9 ''Gunnar Henderson'' ''Baltimore Orioles'' 0.304 413 126 28 86,
    mock_player 10 ''Yordan Alvarez'' ''Houston Astros'' 0.302 386 117 33 97,
    mock_player 11 ''Shohei Ohtani'' ''Los Angeles Dodgers'' 0.299 398 119 40 104,
    mock_player 12 ''Michael Harris II'' ''Atlanta Braves'' 0.298 408 122 18 70,
    mock_player 13 ''Corbin Carroll'' ''Arizona Diamondbacks'' 0.297 400 119 20 66,
    mock_player 14 ''Francisco Lindor'' ''New York Mets'' 0.295 418 123 27 85,
    mock_player 15 ''Rafael Devers'' ''Boston Red Sox'' 0.293 412 121 32 88,
    mock_player 16 ''Bryce Harper'' ''Philadelphia Phillies'' 0.292 410 120 31 92,
    mock_player 17 ''Kyle Tucker'' ''Houston Astros'' 0.290 405 117 29 89,
    mock_player 18 ''Aaron Judge'' ''New York Yankees'' 0.289 400 116 45 107,
    mock_player 19 ''Elly De La Cruz'' ''Cincinnati Reds'' 0.287 395 113 25 72,
    mock_player 20 ''Julio Rodriguez'' ''Seattle Mariners'' 0.286 405 116 26 81,
    mock_player 21 ''Jackson Holliday'' ''Baltimore Orioles'' 0.284 390 111 17 62,
    mock_player 22 ''Jose Ramirez'' ''Cleveland Guardians'' 0.283 410 116 30 95,
    mock_player 23 ''Austin Riley'' ''Atlanta Braves'' 0.280 415 116 29 88,
    mock_player 24 ''Bo Bichette'' ''Toronto Blue Jays'' 0.278 420 117 20 73,
    mock_player 25 (''Ronald Acu'' @ [CHR 0xF1] @ ''a Jr.'') ''Atlanta Braves'' 0.277 400 111 25 78,
    mock_player 26 ''Trea Turner'' ''Philadelphia Phillies'' 0.275 418 115 22 74,
    mock_player 27 ''Paul Goldschmidt'' ''St. Louis Cardinals'' 0.272 405 110 24 79,
    mock_player 28 ''Fernando Tatis Jr.'' ''San Diego Padres'' 0.270 392 106 32 89,
    mock_player 29 ''Luis Robert Jr.'' ''Chicago White Sox'' 0.268 410 110 35 90,
    mock_player 30 ''Nolan Arenado'' ''St. Louis Cardinals'' 0.265 408 108 23 77]"

text \<open>
  \<^verbatim>\<open>getMockBattingStats(season)\<close>: the promise it returns is already resolved.
\<close>

definition getMockBattingStats :: "jsval \<Rightarrow> jsval" where
  "getMockBattingStats season =
     JObj [(''season'', js_or season (JNum (Fin 2025))),
           (''playerBattingStats'', JArr mock_players)]"

text \<open>
  The test of \<^verbatim>\<open>getPlayerBattingStats\<close> for a response without rows:
  \<^verbatim>\<open>!data || !data.stats || !data.stats[0] || !data.stats[0].splits
      || data.stats[0].splits.length === 0\<close>.
  Each receiver is truthy where it is read, so nothing throws.
\<close>

definition no_rows :: "jsval \<Rightarrow> bool" where
  "no_rows d =
     (\<not> truthy d
      \<or> \<not> truthy (read_prop d ''stats'')
      \<or> \<not> truthy (index0 (read_prop d ''stats''))
      \<or> \<not> truthy (read_prop (index0 (read_prop d ''stats'')) ''splits'')
      \<or> read_prop (read_prop (index0 (read_prop d ''stats'')) ''splits'') ''length''
          = JNum (Fin 0))"

text \<open>
  \<^verbatim>\<open>getPlayerBattingStats(season)\<close>, given what the network does. The \<^verbatim>\<open>try\<close> block is
  \<open>attempt\<close>; the \<^verbatim>\<open>catch\<close> clause returns the mock data. (\<^verbatim>\<open>seasonYear\<close> is
  \<^verbatim>\<open>season || 2025\<close>.)
\<close>

definition getPlayerBattingStats :: "fetch_outcome \<Rightarrow> jsval \<Rightarrow> error + jsval" where
  "getPlayerBattingStats f season =
     (let seasonYear = js_or season (JNum (Fin 2025));
          attempt = rbind (fetchData f)
                      (\<lambda>d. if no_rows d then Inr (getMockBattingStats seasonYear) else Inr d)
      in case attempt of
           Inr d \<Rightarrow> Inr d
         | Inl e \<Rightarrow> Inr (getMockBattingStats season))"

text \<open>\<^verbatim>\<open>stat => stat.group?.displayName === 'hitting'\<close>\<close>

definition is_hitting :: "jsval \<Rightarrow> error + bool" where
  "is_hitting stat =
     rbind (get stat ''group'')
       (\<lambda>g. Inr ((if g = JUndefined \<or> g = JNull then JUndefined
                   else read_prop g ''displayName'') = JStr ''hitting''))"

text \<open>\<^verbatim>\<open>Array.prototype.find\<close> with a callback that can throw; \<open>JUndefined\<close> when none is found.\<close>

fun find_r :: "(jsval \<Rightarrow> error + bool) \<Rightarrow> jsval list \<Rightarrow> error + jsval" where
  "find_r p [] = Inr JUndefined"
| "find_r p (x # xs) = rbind (p x) (\<lambda>b. if b then Inr x else find_r p xs)"

text \<open>
  The callback mapping a split of the API shape. \<^verbatim>\<open>split.player\<close> throws when the split
  is \<^verbatim>\<open>null\<close>; after \<^verbatim>\<open>|| {}\<close> every receiver is truthy.
\<close>

definition map_split :: "jsval \<Rightarrow> error + jsval player_record" where
  "map_split split =
     rbind (get split ''player'') (\<lambda>p.
       let player = js_or p (JObj []);
           team = js_or (read_prop split ''team'') (JObj []);
           stats = js_or (read_prop split ''stat'') (JObj [])
       in Inr \<lparr>pid = read_prop player ''id'',
               name = js_or (read_prop player ''fullName'')
                        (js_or (read_prop player ''lastName'')
                           (js_or (read_prop player ''name'') (JStr ''Unknown Player''))),
               team = js_or (read_prop team ''name'') (JStr ''Unknown Team''),
               avg = parseFloat (js_or (read_prop stats ''avg'')
                                   (js_or (read_prop stats ''battingAverage'') (JNum (Fin 0)))),
               atBats = parseInt (js_or (read_prop stats ''atBats'') (JNum (Fin 0))),
               hits = parseInt (js_or (read_prop stats ''hits'') (JNum (Fin 0))),
               homeRuns = parseInt (js_or (read_prop stats ''homeRuns'') (JNum (Fin 0))),
               rbi = parseInt (js_or (read_prop stats ''rbi'') (JNum (Fin 0)))\<rparr>)"

text \<open>
  The callback mapping an element of the flat shape: the spread copies the element's own
  properties (of which the record type keeps \<^verbatim>\<open>id\<close>, \<^verbatim>\<open>name\<close> and \<^verbatim>\<open>team\<close>), then the five
  numeric fields are overwritten. \<^verbatim>\<open>player.avg\<close> throws when the element is \<^verbatim>\<open>null\<close>.
\<close>

definition map_flat :: "jsval \<Rightarrow> error + jsval player_record" where
  "map_flat player =
     rbind (get player ''avg'') (\<lambda>a.
       Inr \<lparr>pid = (case player of JObj _ \<Rightarrow> read_prop player ''id'' | _ \<Rightarrow> JUndefined),
            name = (case player of JObj _ \<Rightarrow> read_prop player ''name'' | _ \<Rightarrow> JUndefined),
            team = (case player of JObj _ \<Rightarrow> read_prop player ''team'' | _ \<Rightarrow> JUndefined),
            avg = parseFloat a,
            atBats = parseInt (read_prop player ''atBats''),
            hits = parseInt (read_prop player ''hits''),
            homeRuns = parseInt (read_prop player ''homeRuns''),
            rbi = parseInt (read_prop player ''rbi'')\<rparr>)"

text \<open>\<^verbatim>\<open>(a, b) => b.avg - a.avg\<close>\<close>

definition by_avg_desc :: "('s, 'z) player_record_scheme \<Rightarrow> ('s, 'z) player_record_scheme \<Rightarrow> jsnum" where
  "by_avg_desc a b = js_sub (avg b) (avg a)"

text \<open>
  \<^verbatim>\<open>xs.find(...)\<close> and \<^verbatim>\<open>xs.map(...)\<close> exist only on arrays; on any other value the call
  throws a \<^verbatim>\<open>TypeError\<close>.
\<close>

definition api_branch :: "jsval \<Rightarrow> error + jsval player_record list option" where
  "api_branch d =
     rbind (get d ''stats'') (\<lambda>stats.
       if truthy stats \<and> js_gt0 (read_prop stats ''length'') then
         (case stats of
            JArr xs \<Rightarrow>
              rbind (find_r is_hitting xs) (\<lambda>hittingStats.
                if truthy hittingStats \<and> truthy (read_prop hittingStats ''splits'')
                   \<and> js_gt0 (read_prop (read_prop hittingStats ''splits'') ''length'')
                then (case read_prop hittingStats ''splits'' of
                        JArr splits \<Rightarrow>
                          rbind (rmap map_split splits)
                            (\<lambda>rs. Inr (Some (js_sort by_avg_desc rs)))
                      | _ \<Rightarrow> Inl TypeError)
                else Inr None)
          | _ \<Rightarrow> Inl TypeError)
       else Inr None)"

definition flat_branch :: "jsval \<Rightarrow> error + jsval player_record list" where
  "flat_branch d =
     (case read_prop d ''playerBattingStats'' of
        JArr players \<Rightarrow> rbind (rmap map_flat players) (\<lambda>rs. Inr (js_sort by_avg_desc rs))
      | _ \<Rightarrow> Inl (Error ''Could not extract batting data from response''))"

text \<open>
  The \<^verbatim>\<open>try\<close> block of \<^verbatim>\<open>extractBattingData\<close>: the API shape first, then the flat shape,
  then the \<^verbatim>\<open>throw\<close>.
\<close>

definition extract_try :: "jsval \<Rightarrow> error + jsval player_record list" where
  "extract_try d =
     rbind (api_branch d) (\<lambda>r. case r of Some rs \<Rightarrow> Inr rs | None \<Rightarrow> flat_branch d)"

text \<open>\<^verbatim>\<open>extractBattingData(data)\<close>: the \<^verbatim>\<open>catch\<close> clause logs the error and returns \<^verbatim>\<open>[]\<close>.\<close>

definition extractBattingData :: "jsval \<Rightarrow> jsval player_record list" where
  "extractBattingData d = (case extract_try d of Inr rs \<Rightarrow> rs | Inl e \<Rightarrow> [])"

text \<open>
  A response of the API shape with three splits; the average of the second is a string
  that is not a number.
\<close>

definition placeholder_avg_response :: jsval where
  "placeholder_avg_response =
     JObj [(''stats'',
       JArr [JObj [(''group'', JObj [(''displayName'', JStr ''hitting'')]),
                   (''splits'',
                    JArr [JObj [(''player'', JObj [(''id'', JNum (Fin 1)), (''fullName'', JStr ''A'')]),
                                (''team'', JObj [(''name'', JStr ''Boston Red Sox'')]),
                                (''stat'', JObj [(''avg'', JStr ''.200''), (''atBats'', JNum (Fin 10))])],
                          JObj [(''player'', JObj [(''id'', JNum (Fin 2)), (''fullName'', JStr ''B'')]),
                                (''team'', JObj [(''name'', JStr ''Chicago Cubs'')]),
                                (''stat'', JObj [(''avg'', JStr ''.---''), (''atBats'', JNum (Fin 0))])],
                          JObj [(''player'', JObj [(''id'', JNum (Fin 3)), (''fullName'', JStr ''C'')]),
                                (''team'', JObj [(''name'', JStr ''Detroit Tigers'')]),
                                (''stat'', JObj [(''avg'', JStr ''.300''), (''atBats'', JNum (Fin 10))])]])]])]"

section \<open>The visualizer (BattingVisualizer)\<close>

text \<open>
  A colour handed to the chart is a string or \<^verbatim>\<open>undefined\<close> (\<open>None\<close>). The chart handle
  holds what the chart was built from; \<open>visData\<close> is the array its event handlers have
  captured.
\<close>

record bar_chart =
  labels :: "string list"
  chart_data :: "jsnum list"
  backgroundColor :: "string option list"
  borderColor :: "string option list"
  visData :: "string player_record list"

text \<open>
  The children of the container element. The legend is created with the id
  \<^verbatim>\<open>team-legend\<close>, the table with the id \<^verbatim>\<open>players-table\<close>; the canvas and the error message
  have no id.
\<close>

datatype element =
    Canvas
  | TeamLegend "(string \<times> string option) list"
  | PlayersTable "string player_record list"
  | ErrorMessage string

fun element_id :: "element \<Rightarrow> string" where
  "element_id Canvas = ''''"
| "element_id (TeamLegend _) = ''team-legend''"
| "element_id (PlayersTable _) = ''players-table''"
| "element_id (ErrorMessage _) = ''''"

record visualizer =
  vdata :: "string player_record list option"
  chart :: "bar_chart option"
  originalBackgroundColors :: "string option list option"
  originalBorderColors :: "string option list option"
  container :: "element list"

text \<open>The constructor: no data, no chart, a canvas in the container.\<close>

definition new_visualizer :: visualizer where
  "new_visualizer =
     \<lparr>vdata = None, chart = None, originalBackgroundColors = None,
      originalBorderColors = None, container = [Canvas]\<rparr>"

text \<open>
  \<^verbatim>\<open>const e = document.getElementById(i); if (e) e.remove();\<close> The first element with
  the id is removed.
\<close>

fun remove_by_id :: "string \<Rightarrow> element list \<Rightarrow> element list" where
  "remove_by_id i [] = []"
| "remove_by_id i (e # es) = (if element_id e = i then es else e # remove_by_id i es)"

text \<open>
  \<^verbatim>\<open>container.insertBefore(e, document.getElementById(i))\<close>: before the first element
  with the id, at the end when there is none.
\<close>

fun insert_before :: "element \<Rightarrow> string \<Rightarrow> element list \<Rightarrow> element list" where
  "insert_before n i [] = [n]"
| "insert_before n i (e # es) = (if element_id e = i then n # e # es else e # insert_before n i es)"

text \<open>
  The legend: \<^verbatim>\<open>teams[player.team] = this.getTeamColor(player.team)\<close> for every displayed
  player, then \<^verbatim>\<open>Object.keys(teams).sort()\<close>. An assignment to \<^verbatim>\<open>__proto__\<close> of a value that
  is not an object creates no property.
\<close>

definition legend_entries :: "string player_record list \<Rightarrow> (string \<times> string option) list" where
  "legend_entries ps =
     map (\<lambda>t. (t, getTeamColor t))
       (sort (remdups (filter (\<lambda>t. t \<noteq> ''__proto__'') (map team ps))))"

definition addTeamLegend :: "(string \<times> string option) list \<Rightarrow> visualizer \<Rightarrow> visualizer" where
  "addTeamLegend teams v =
     (let c = remove_by_id ''team-legend'' (container v)
      in v\<lparr>container := insert_before (TeamLegend teams) ''players-table'' c\<rparr>)"

definition addPlayerTable :: "string player_record list \<Rightarrow> visualizer \<Rightarrow> visualizer" where
  "addPlayerTable players v =
     (let c = remove_by_id ''players-table'' (container v);
          sortedPlayers = js_sort by_avg_desc players
      in v\<lparr>container := c @ [PlayersTable sortedPlayers]\<rparr>)"

text \<open>
  \<^verbatim>\<open>updateVisualization(data)\<close>. A chart that exists is destroyed before the new one takes
  its place in \<^verbatim>\<open>this.chart\<close>.
\<close>

definition updateVisualization :: "string player_record list \<Rightarrow> visualizer \<Rightarrow> visualizer" where
  "updateVisualization data v =
     (let vd = js_sort by_avg_desc (take 30 data);
          backgroundColors = map (\<lambda>player. getTeamColor (team player)) vd;
          borderColors = map (\<lambda>player. getTeamSecondaryColor (team player)) vd;
          v1 = v\<lparr>vdata := Some data,
                 originalBackgroundColors := Some backgroundColors,
                 originalBorderColors := Some borderColors,
                 chart := Some \<lparr>labels = map name vd, chart_data = map avg vd,
                                backgroundColor = backgroundColors,
                                borderColor = borderColors, visData = vd\<rparr>\<rparr>
      in addPlayerTable vd (addTeamLegend (legend_entries vd) v1))"

text \<open>
  \<^verbatim>\<open>resetBarColors()\<close>. Spreading \<^verbatim>\<open>this.originalBorderColors\<close> throws when it is
  \<^verbatim>\<open>undefined\<close>.
\<close>

definition resetBarColors :: "visualizer \<Rightarrow> error + visualizer" where
  "resetBarColors v =
     (case (chart v, originalBackgroundColors v) of
        (Some c, Some bg) \<Rightarrow>
          (case originalBorderColors v of
             None \<Rightarrow> Inl TypeError
           | Some bd \<Rightarrow> Inr (v\<lparr>chart := Some (c\<lparr>backgroundColor := bg, borderColor := bd\<rparr>)\<rparr>))
      | _ \<Rightarrow> Inr v)"

text \<open>Reading and writing an array element: a read beyond the end is \<^verbatim>\<open>undefined\<close>, a write extends.\<close>

definition read_at :: "string option list \<Rightarrow> nat \<Rightarrow> string option" where
  "read_at xs i = (if i < length xs then xs ! i else None)"

definition write_at :: "string option list \<Rightarrow> nat \<Rightarrow> string option \<Rightarrow> string option list" where
  "write_at xs i x =
     (if i < length xs then xs[i := x] else xs @ replicate (i - length xs) None @ [x])"

text \<open>\<^verbatim>\<open>this.fadeColor(c)\<close>: \<^verbatim>\<open>c.startsWith\<close> throws when \<open>c\<close> is \<^verbatim>\<open>undefined\<close>.\<close>

definition fade :: "string option \<Rightarrow> error + string option" where
  "fade c = (case c of None \<Rightarrow> Inl TypeError | Some s \<Rightarrow> Inr (Some (fadeColor s)))"

text \<open>
  The \<^verbatim>\<open>players.forEach((player, index) => ...)\<close> of \<^verbatim>\<open>highlightTeam\<close>, from \<open>index\<close> on:
  \<open>obg\<close> and \<open>obd\<close> are the original colours, the pair holds the two new arrays.
\<close>

fun highlight_loop ::
  "string \<Rightarrow> string option list \<Rightarrow> string option list \<Rightarrow> string player_record list \<Rightarrow> nat
    \<Rightarrow> string option list \<times> string option list
    \<Rightarrow> error + (string option list \<times> string option list)" where
  "highlight_loop t obg obd [] index acc = Inr acc"
| "highlight_loop t obg obd (player # players) index (nbg, nbd) =
     (if team player \<noteq> t then
        rbind (fade (read_at obg index)) (\<lambda>b.
          rbind (fade (read_at obd index)) (\<lambda>d.
            highlight_loop t obg obd players (Suc index)
              (write_at nbg index b, write_at nbd index d)))
      else highlight_loop t obg obd players (Suc index)
             (write_at nbg index (read_at obg index), write_at nbd index (read_at obd index)))"

definition highlightTeam :: "string \<Rightarrow> string player_record list \<Rightarrow> visualizer \<Rightarrow> error + visualizer" where
  "highlightTeam teamToHighlight players v =
     (case (chart v, originalBackgroundColors v) of
        (Some c, Some obg) \<Rightarrow>
          (case originalBorderColors v of
             None \<Rightarrow> Inl TypeError
           | Some obd \<Rightarrow>
               rbind (highlight_loop teamToHighlight obg obd players 0 (obg, obd))
                 (\<lambda>(nbg, nbd). Inr (v\<lparr>chart := Some (c\<lparr>backgroundColor := nbg,
                                                          borderColor := nbd\<rparr>)\<rparr>)))
      | _ \<Rightarrow> Inr v)"

text \<open>
  The chart's \<^verbatim>\<open>onHover\<close> handler, with the indices of the active elements, and the
  \<^verbatim>\<open>mouseleave\<close> listener of the canvas.
\<close>

definition onHover :: "nat list \<Rightarrow> visualizer \<Rightarrow> error + visualizer" where
  "onHover activeElements v =
     rbind (resetBarColors v) (\<lambda>v1.
       case (activeElements, chart v1) of
         (index # _, Some c) \<Rightarrow>
           if index < length (visData c)
           then highlightTeam (team (visData c ! index)) (visData c) v1
           else Inl TypeError
       | _ \<Rightarrow> Inr v1)"

definition onMouseLeave :: "visualizer \<Rightarrow> error + visualizer" where
  "onMouseLeave v = resetBarColors v"

text \<open>\<^verbatim>\<open>showLoading()\<close> empties the container and puts the canvas back.\<close>

definition showLoading :: "visualizer \<Rightarrow> visualizer" where
  "showLoading v = v\<lparr>container := [Canvas]\<rparr>"

text \<open>
  \<^verbatim>\<open>clearObjects()\<close>: the chart is destroyed and \<^verbatim>\<open>this.chart\<close> set to \<^verbatim>\<open>null\<close>; then the
  element with the id \<^verbatim>\<open>custom-legend\<close> is removed when there is one.
\<close>

definition clearObjects :: "visualizer \<Rightarrow> visualizer" where
  "clearObjects v =
     (let v1 = (case chart v of Some c \<Rightarrow> v\<lparr>chart := None\<rparr> | None \<Rightarrow> v)
      in v1\<lparr>container := remove_by_id ''custom-legend'' (container v1)\<rparr>)"

text \<open>The state the specification calls Rendered: a live chart, and a legend in the document.\<close>

definition has_legend :: "visualizer \<Rightarrow> bool" where
  "has_legend v = (''team-legend'' \<in> set (map element_id (container v)))"

definition rendered :: "visualizer \<Rightarrow> bool" where
  "rendered v = (chart v \<noteq> None \<and> has_legend v)"

section \<open>The controller (js/app.js)\<close>

text \<open>What \<^verbatim>\<open>updateStatsInfo\<close> computes from a list that is not empty.\<close>

record summary =
  avgBattingAvg :: jsnum
  bestBatter :: "string player_record"
  worstBatter :: "string player_record"
  eliteBatters :: nat
  goodBatters :: nat
  avgBatters :: nat
  teamCount :: nat

datatype stats_panel = Untouched | NoData | Stats summary

text \<open>\<^verbatim>\<open>xs.reduce(f)\<close> without an initial value, on a list that is not empty.\<close>

definition reduce1 :: "('a \<Rightarrow> 'a \<Rightarrow> 'a) \<Rightarrow> 'a list \<Rightarrow> 'a" where
  "reduce1 f xs = foldl f (hd xs) (tl xs)"

text \<open>
  \<^verbatim>\<open>updateStatsInfo(data)\<close>. (\<^verbatim>\<open>maxAvg\<close> and \<^verbatim>\<open>minAvg\<close> are computed and never read.)
\<close>

definition updateStatsInfo :: "string player_record list \<Rightarrow> stats_panel" where
  "updateStatsInfo data =
     (if data = [] then NoData
      else Stats
        \<lparr>avgBattingAvg =
           js_div_len (foldl (\<lambda>sum item. js_add sum (avg item)) (Fin 0) data) (length data),
         bestBatter = reduce1 (\<lambda>prev current. if js_gt (avg prev) (avg current) then prev else current) data,
         worstBatter = reduce1 (\<lambda>prev current. if js_lt (avg prev) (avg current) then prev else current) data,
         eliteBatters = length (filter (\<lambda>player. js_ge (avg player) (Fin 0.300)) data),
         goodBatters = length (filter (\<lambda>player. js_ge (avg player) (Fin 0.280)
                                          \<and> js_lt (avg player) (Fin 0.300)) data),
         avgBatters = length (filter (\<lambda>player. js_ge (avg player) (Fin 0.250)
                                         \<and> js_lt (avg player) (Fin 0.280)) data),
         teamCount = length (remdups (map team data))\<rparr>)"

record page =
  vis :: visualizer
  stats_info :: stats_panel
  loading_hidden :: bool

definition toggleLoading :: "bool \<Rightarrow> page \<Rightarrow> page" where
  "toggleLoading isLoading pg =
     (if isLoading then pg\<lparr>loading_hidden := False, vis := showLoading (vis pg)\<rparr>
      else pg\<lparr>loading_hidden := True\<rparr>)"

text \<open>
  The \<^verbatim>\<open>catch\<close> clause of \<^verbatim>\<open>fetchAndVisualizeData\<close>. The message of a \<^verbatim>\<open>TypeError\<close> is the
  engine's; its name stands for it here.
\<close>

definition error_text :: "error \<Rightarrow> string" where
  "error_text e = ''Error loading data: '' @ (case e of TypeError \<Rightarrow> ''TypeError'' | Error m \<Rightarrow> m)"

definition show_error :: "error \<Rightarrow> page \<Rightarrow> page" where
  "show_error e pg = pg\<lparr>vis := (clearObjects (vis pg))\<lparr>container := [ErrorMessage (error_text e)]\<rparr>\<rparr>"

text \<open>
  The visualizer reads team names as property keys and compares them with \<^verbatim>\<open>!==\<close>; it is
  modelled on records whose \<open>name\<close> and \<open>team\<close> are strings.
\<close>

definition as_string :: "jsval \<Rightarrow> string option" where
  "as_string v = (case v of JStr s \<Rightarrow> Some s | _ \<Rightarrow> None)"

definition typed_record :: "jsval player_record \<Rightarrow> string player_record option" where
  "typed_record r =
     (case (as_string (name r), as_string (team r)) of
        (Some n, Some t) \<Rightarrow>
          Some \<lparr>pid = pid r, name = n, team = t, avg = avg r, atBats = atBats r,
                hits = hits r, homeRuns = homeRuns r, rbi = rbi r\<rparr>
      | _ \<Rightarrow> None)"

fun typed_records :: "jsval player_record list \<Rightarrow> string player_record list option" where
  "typed_records [] = Some []"
| "typed_records (r # rs) =
     (case (typed_record r, typed_records rs) of
        (Some x, Some xs) \<Rightarrow> Some (x # xs)
      | _ \<Rightarrow> None)"

text \<open>
  \<^verbatim>\<open>fetchAndVisualizeData()\<close>, given what the network does and the selected season. The
  result is \<open>None\<close> where a record's name or team is not a string.
\<close>

definition fetchAndVisualizeData :: "fetch_outcome \<Rightarrow> jsval \<Rightarrow> page \<Rightarrow> page option" where
  "fetchAndVisualizeData f season pg =
     (let pg1 = toggleLoading True pg
      in case getPlayerBattingStats f season of
           Inl e \<Rightarrow> Some (toggleLoading False (show_error e pg1))
         | Inr response \<Rightarrow>
             (case typed_records (extractBattingData response) of
                None \<Rightarrow> None
              | Some data \<Rightarrow>
                  Some (toggleLoading False
                          (pg1\<lparr>vis := updateVisualization data (vis pg1),
                               stats_info := updateStatsInfo data\<rparr>))))"


section \<open>The two payload shapes\<close>

text \<open>
  The API shape, as \<^verbatim>\<open>extractBattingData\<close> tests for it: \<^verbatim>\<open>stats\<close> is an array, and its first
  element whose \<^verbatim>\<open>group.displayName\<close> is \<^verbatim>\<open>hitting\<close> has an array \<^verbatim>\<open>splits\<close> that is not
  empty. The flat shape: \<^verbatim>\<open>playerBattingStats\<close> is an array.
\<close>

definition hitting_group :: "jsval \<Rightarrow> bool" where
  "hitting_group stat =
     (case read_prop stat ''group'' of
        JObj g \<Rightarrow> map_of g ''displayName'' = Some (JStr ''hitting'')
      | _ \<Rightarrow> False)"

definition has_splits :: "jsval \<Rightarrow> bool" where
  "has_splits stat = (case read_prop stat ''splits'' of JArr (s # ss) \<Rightarrow> True | _ \<Rightarrow> False)"

definition api_shape :: "jsval \<Rightarrow> bool" where
  "api_shape d =
     (case read_prop d ''stats'' of
        JArr xs \<Rightarrow> (case find hitting_group xs of Some h \<Rightarrow> has_splits h | None \<Rightarrow> False)
      | _ \<Rightarrow> False)"

definition flat_shape :: "jsval \<Rightarrow> bool" where
  "flat_shape d = (case read_prop d ''playerBattingStats'' of JArr ps \<Rightarrow> True | _ \<Rightarrow> False)"

text \<open>
  A response that has rows and neither shape: its only statistics group is not named.
\<close>

definition unnamed_group_response :: jsval where
  "unnamed_group_response =
     JObj [(''stats'', JArr [JObj [(''splits'', JArr [JObj [(''player'', JObj [(''fullName'', JStr ''A'')])]])]])]"

definition initial_page :: page where
  "initial_page = \<lparr>vis = new_visualizer, stats_info = Untouched, loading_hidden = True\<rparr>"

section \<open>The record shape of the data model\<close>

text \<open>
  The PlayerRecord of the specification's data model: \<open>name\<close> and \<open>team\<close> are strings,
  \<open>avg\<close> is a number in \<open>[0, 1]\<close>, and the four counts are non-negative integers.
\<close>

definition is_count :: "jsnum \<Rightarrow> bool" where
  "is_count n = (case n of Fin x \<Rightarrow> 0 \<le> x \<and> x = real_of_int \<lfloor>x\<rfloor> | _ \<Rightarrow> False)"

definition is_average :: "jsnum \<Rightarrow> bool" where
  "is_average n = (case n of Fin x \<Rightarrow> 0 \<le> x \<and> x \<le> 1 | _ \<Rightarrow> False)"

definition record_shape :: "jsval player_record \<Rightarrow> bool" where
  "record_shape r =
     (as_string (name r) \<noteq> None \<and> as_string (team r) \<noteq> None \<and> is_average (avg r)
      \<and> is_count (atBats r) \<and> is_count (hits r) \<and> is_count (homeRuns r) \<and> is_count (rbi r))"

text \<open>Whether an average lies in the band of the bundled data.\<close>

definition in_band :: "jsnum \<Rightarrow> bool" where
  "in_band n = (case n of Fin x \<Rightarrow> 0.260 \<le> x \<and> x \<le> 0.330 | _ \<Rightarrow> False)"

text \<open>The record that normalization makes of a bundled object.\<close>

definition mock_record ::
  "nat \<Rightarrow> string \<Rightarrow> string \<Rightarrow> real \<Rightarrow> nat \<Rightarrow> nat \<Rightarrow> nat \<Rightarrow> nat \<Rightarrow> jsval player_record" where
  "mock_record i n t a ab h hr r =
     \<lparr>pid = JNum (Fin (real i)), name = JStr n, team = JStr t, avg = Fin a,
      atBats = Fin (real ab), hits = Fin (real h), homeRuns = Fin (real hr), rbi = Fin (real r)\<rparr>"

text \<open>
  The colour \<^verbatim>\<open>highlightTeam\<close> gives a bar, from the bar's original colour: the colour
  itself for the hovered team, its faded version for any other.
\<close>

definition shade :: "string \<Rightarrow> string player_record \<Rightarrow> string option \<Rightarrow> string option" where
  "shade t p c = (if team p \<noteq> t then Some (fadeColor (the c)) else c)"

section \<open>The league average\<close>




section \<open>Properties of the comparator sort\<close>

lemma js_sub_gt0: "js_gt (js_sub b a) (Fin 0) = js_lt a b"
  by (cases a; cases b) (simp_all add: js_gt_def js_sub_def)

lemma js_ge_total: "a \<noteq> NaN \<Longrightarrow> b \<noteq> NaN \<Longrightarrow> \<not> js_lt a b \<Longrightarrow> js_ge a b"
  by (simp add: js_ge_def)

lemma js_lt_imp_ge: "js_lt a b \<Longrightarrow> js_ge b a"
  by (cases a; cases b) (simp_all add: js_ge_def)

lemma js_ge_trans: "js_ge a b \<Longrightarrow> js_ge b c \<Longrightarrow> js_ge a c"
  by (cases a; cases b; cases c) (simp_all add: js_ge_def)

lemma set_js_insert: "set (js_insert cmp x ys) = insert x (set ys)"
  by (induction ys) auto

lemma set_js_sort: "set (js_sort cmp xs) = set xs"
  by (induction xs) (auto simp: set_js_insert)

lemma length_js_insert: "length (js_insert cmp x ys) = Suc (length ys)"
  by (induction ys) auto

lemma length_js_sort: "length (js_sort cmp xs) = length xs"
  by (induction xs) (auto simp: length_js_insert)



text \<open>
  Inserting into a list that is in non-increasing order of \<open>avg\<close> keeps it so, as long as
  no \<open>avg\<close> is \<^verbatim>\<open>NaN\<close>.
\<close>

lemma js_insert_desc:
  assumes "avg x \<noteq> NaN" "\<forall>y \<in> set ys. avg y \<noteq> NaN"
    and "sorted_wrt (\<lambda>a b. js_ge (avg a) (avg b)) ys"
  shows "sorted_wrt (\<lambda>a b. js_ge (avg a) (avg b)) (js_insert by_avg_desc x ys)"
  using assms
proof (induction ys)
  case Nil
  then show ?case by simp
next
  case (Cons y ys)
  show ?case
  proof (cases "js_lt (avg x) (avg y)")
    case True
    then have "js_ge (avg y) (avg x)" by (rule js_lt_imp_ge)
    with Cons True show ?thesis
      by (auto simp: by_avg_desc_def js_sub_gt0 set_js_insert)
  next
    case False
    then have xy: "js_ge (avg x) (avg y)" using Cons.prems by (simp add: js_ge_total)
    have "\<forall>z \<in> set ys. js_ge (avg x) (avg z)"
      using Cons.prems(3) xy by (auto intro: js_ge_trans)
    with Cons.prems False xy show ?thesis
      by (simp add: by_avg_desc_def js_sub_gt0)
  qed
qed

lemma js_sort_desc:
  "\<forall>p \<in> set ps. avg p \<noteq> NaN \<Longrightarrow>
   sorted_wrt (\<lambda>a b. js_ge (avg a) (avg b)) (js_sort by_avg_desc ps)"
  by (induction ps) (auto intro!: js_insert_desc simp: set_js_sort)

lemma js_insert_sorted_id:
  "\<forall>y \<in> set ys. \<not> js_lt (avg x) (avg y) \<Longrightarrow> js_insert by_avg_desc x ys = x # ys"
  by (cases ys) (auto simp: by_avg_desc_def js_sub_gt0)

text \<open>Sorting a list that is already in order returns it: the table agrees with the chart.\<close>

lemma js_sort_sorted_id:
  "sorted_wrt (\<lambda>a b. js_ge (avg a) (avg b)) ps \<Longrightarrow> js_sort by_avg_desc ps = ps"
proof (induction ps)
  case Nil
  then show ?case by simp
next
  case (Cons p ps)
  then have "\<forall>y \<in> set ps. \<not> js_lt (avg p) (avg y)" by (auto simp: js_ge_def)
  with Cons show ?case by (simp add: js_insert_sorted_id)
qed

section \<open>The colour lookup\<close>

lemma table_get_unknown_team: "table_get ''Unknown Team'' = Some (Entry fallback_colors)"
  by (simp add: table_get_def MLB_TEAM_COLORS_def fallback_colors_def)

lemma getTeamColors_known:
  "map_of MLB_TEAM_COLORS n = Some c \<Longrightarrow> getTeamColors n = Some (Entry c)"
  by (simp add: getTeamColors_def table_get_def)

lemma getTeamColors_unknown:
  assumes "map_of MLB_TEAM_COLORS n = None" and "n \<notin> set object_prototype_names"
  shows "getTeamColors n = Some (Entry fallback_colors)"
proof -
  have "table_get n = None" using assms by (simp add: table_get_def)
  then show ?thesis by (simp add: getTeamColors_def table_get_unknown_team)
qed

text \<open>Outside the inherited names the lookup is what the specification describes.\<close>

lemma getTeamColors_pair:
  assumes "n \<notin> set object_prototype_names"
  shows "getTeamColors n =
           Some (Entry (case map_of MLB_TEAM_COLORS n of Some c \<Rightarrow> c | None \<Rightarrow> fallback_colors))"
proof (cases "map_of MLB_TEAM_COLORS n")
  case None
  then show ?thesis using assms by (simp add: getTeamColors_unknown)
next
  case (Some c)
  then show ?thesis by (simp add: getTeamColors_known)
qed

lemma getTeamColor_defined:
  "n \<notin> set object_prototype_names \<Longrightarrow> \<exists>c. getTeamColor n = Some c"
  by (simp add: getTeamColor_def getTeamColors_pair)

lemma getTeamSecondaryColor_defined:
  "n \<notin> set object_prototype_names \<Longrightarrow> \<exists>c. getTeamSecondaryColor n = Some c"
  by (simp add: getTeamSecondaryColor_def getTeamColors_pair)

text \<open>
  Claim C9. The lookup is to return a \<^verbatim>\<open>{primary, secondary}\<close> pair for every string,
  the fallback pair for a name that is not in the table. For the name \<^verbatim>\<open>constructor\<close>,
  which is not in the table, \<^verbatim>\<open>MLB_TEAM_COLORS[teamName]\<close> finds the inherited member, the
  \<^verbatim>\<open>||\<close> keeps it, and the caller reads \<^verbatim>\<open>undefined\<close> as its primary and secondary
  colour.
\<close>

theorem getTeamColors_inherited_name:
  "map_of MLB_TEAM_COLORS ''constructor'' = None
   \<and> getTeamColors ''constructor'' = Some (Inherited ''constructor'')
   \<and> getTeamColors ''constructor'' \<noteq> Some (Entry fallback_colors)
   \<and> getTeamColor ''constructor'' = None
   \<and> getTeamSecondaryColor ''constructor'' = None"
  by (simp add: getTeamColors_def getTeamColor_def getTeamSecondaryColor_def table_get_def
      MLB_TEAM_COLORS_def object_prototype_names_def)

section \<open>Fading\<close>





















section \<open>Rendering\<close>

lemma chart_updateVisualization:
  "chart (updateVisualization data v) =
     Some \<lparr>labels = map name (js_sort by_avg_desc (take 30 data)),
           chart_data = map avg (js_sort by_avg_desc (take 30 data)),
           backgroundColor = map (\<lambda>p. getTeamColor (team p)) (js_sort by_avg_desc (take 30 data)),
           borderColor = map (\<lambda>p. getTeamSecondaryColor (team p)) (js_sort by_avg_desc (take 30 data)),
           visData = js_sort by_avg_desc (take 30 data)\<rparr>"
  by (simp add: updateVisualization_def addPlayerTable_def addTeamLegend_def Let_def)

lemma originals_updateVisualization:
  "originalBackgroundColors (updateVisualization data v) =
     Some (map (\<lambda>p. getTeamColor (team p)) (js_sort by_avg_desc (take 30 data)))"
  "originalBorderColors (updateVisualization data v) =
     Some (map (\<lambda>p. getTeamSecondaryColor (team p)) (js_sort by_avg_desc (take 30 data)))"
  by (simp_all add: updateVisualization_def addPlayerTable_def addTeamLegend_def Let_def)

lemma table_updateVisualization:
  "last (container (updateVisualization data v)) =
     PlayersTable (js_sort by_avg_desc (js_sort by_avg_desc (take 30 data)))"
  by (simp add: updateVisualization_def addPlayerTable_def addTeamLegend_def Let_def)

text \<open>
  Claim C5. For every list of player records whose averages are numbers (none is
  \<^verbatim>\<open>NaN\<close>), \<^verbatim>\<open>updateVisualization\<close> builds a chart of at most 30 bars whose values are
  in non-increasing order, and the table it appends has at most 30 rows in
  non-increasing order of \<open>avg\<close>.
\<close>

theorem updateVisualization_bars_sorted:
  assumes "\<forall>p \<in> set data. avg p \<noteq> NaN"
  shows "\<exists>c rows. chart (updateVisualization data v) = Some c
           \<and> length (chart_data c) \<le> 30
           \<and> length (labels c) = length (chart_data c)
           \<and> sorted_wrt js_ge (chart_data c)
           \<and> last (container (updateVisualization data v)) = PlayersTable rows
           \<and> length rows \<le> 30
           \<and> sorted_wrt js_ge (map avg rows)"
proof -
  let ?vd = "js_sort by_avg_desc (take 30 data)"
  have nn: "\<forall>p \<in> set (take 30 data). avg p \<noteq> NaN"
    using assms by (auto dest: in_set_takeD)
  have s: "sorted_wrt (\<lambda>a b. js_ge (avg a) (avg b)) ?vd"
    using nn by (rule js_sort_desc)
  then have t: "js_sort by_avg_desc ?vd = ?vd" by (rule js_sort_sorted_id)
  have l: "length ?vd \<le> 30" by (simp add: length_js_sort)
  have sm: "sorted_wrt js_ge (map avg ?vd)" using s by (simp add: sorted_wrt_map)
  show ?thesis
    using l sm by (simp add: chart_updateVisualization table_updateVisualization t)
qed

theorem updateVisualization_bars_sorted_witness:
  "avg \<lparr>pid = JNum (Fin 1), name = ''A'', team = ''Boston Red Sox'', avg = Fin 0.25,
         atBats = Fin 4, hits = Fin 1, homeRuns = Fin 0, rbi = Fin 0\<rparr> \<noteq> NaN
   \<and> avg \<lparr>pid = JNum (Fin 2), name = ''B'', team = ''Chicago Cubs'', avg = Fin 0.5,
           atBats = Fin 4, hits = Fin 2, homeRuns = Fin 1, rbi = Fin 2\<rparr> \<noteq> NaN
   \<and> (\<exists>c rows. chart (updateVisualization
                   [\<lparr>pid = JNum (Fin 1), name = ''A'', team = ''Boston Red Sox'', avg = Fin 0.25,
                     atBats = Fin 4, hits = Fin 1, homeRuns = Fin 0, rbi = Fin 0\<rparr>,
                    \<lparr>pid = JNum (Fin 2), name = ''B'', team = ''Chicago Cubs'', avg = Fin 0.5,
                     atBats = Fin 4, hits = Fin 2, homeRuns = Fin 1, rbi = Fin 2\<rparr>]
                   new_visualizer) = Some c
        \<and> length (chart_data c) \<le> 30
        \<and> length (labels c) = length (chart_data c)
        \<and> sorted_wrt js_ge (chart_data c)
        \<and> last (container (updateVisualization
                   [\<lparr>pid = JNum (Fin 1), name = ''A'', team = ''Boston Red Sox'', avg = Fin 0.25,
                     atBats = Fin 4, hits = Fin 1, homeRuns = Fin 0, rbi = Fin 0\<rparr>,
                    \<lparr>pid = JNum (Fin 2), name = ''B'', team = ''Chicago Cubs'', avg = Fin 0.5,
                     atBats = Fin 4, hits = Fin 2, homeRuns = Fin 1, rbi = Fin 2\<rparr>]
                   new_visualizer)) = PlayersTable rows
        \<and> length rows \<le> 30
        \<and> sorted_wrt js_ge (map avg rows))"
proof -
  let ?d = "[\<lparr>pid = JNum (Fin 1), name = ''A'', team = ''Boston Red Sox'', avg = Fin 0.25,
                  atBats = Fin 4, hits = Fin 1, homeRuns = Fin 0, rbi = Fin 0\<rparr>,
                \<lparr>pid = JNum (Fin 2), name = ''B'', team = ''Chicago Cubs'', avg = Fin 0.5,
                  atBats = Fin 4, hits = Fin 2, homeRuns = Fin 1, rbi = Fin 2\<rparr>]"
  have h: "\<forall>p \<in> set ?d. avg p \<noteq> NaN" by simp
  have "\<exists>c rows. chart (updateVisualization ?d new_visualizer) = Some c
        \<and> length (chart_data c) \<le> 30
        \<and> length (labels c) = length (chart_data c)
        \<and> sorted_wrt js_ge (chart_data c)
        \<and> last (container (updateVisualization ?d new_visualizer)) = PlayersTable rows
        \<and> length rows \<le> 30
        \<and> sorted_wrt js_ge (map avg rows)"
    using updateVisualization_bars_sorted [OF h, of new_visualizer] .
  then show ?thesis by simp
qed

section \<open>Normalization\<close>

lemmas parse_eval =
  parseFloat_str_def parse_signed_def parse_unsigned_def parse_exponent_def pow10_def
  startsWith_def is_space_def is_digit_def digits_value_def digit_val_def
  parseInt_num_def parseInt_str_def is_radix_digit_def

lemmas extract_eval =
  extractBattingData_def extract_try_def api_branch_def flat_branch_def map_split_def
  map_flat_def is_hitting_def get_def rbind_def js_or_def js_gt0_def js_gt_def
  by_avg_desc_def js_sub_def

lemma extractBattingData_cases:
  "extractBattingData d = [] \<or> (\<exists>rs. extractBattingData d = js_sort by_avg_desc rs)"
  by (auto simp: extractBattingData_def extract_try_def api_branch_def flat_branch_def rbind_def
      split: sum.splits option.splits jsval.splits if_splits)

text \<open>When no average of the result is \<^verbatim>\<open>NaN\<close>, the result is in non-increasing order.\<close>

lemma extractBattingData_sorted:
  assumes "\<forall>r \<in> set (extractBattingData d). avg r \<noteq> NaN"
  shows "sorted_wrt js_ge (map avg (extractBattingData d))"
proof -
  from extractBattingData_cases [of d] show ?thesis
  proof
    assume "extractBattingData d = []"
    then show ?thesis by simp
  next
    assume "\<exists>rs. extractBattingData d = js_sort by_avg_desc rs"
    then obtain rs where rs: "extractBattingData d = js_sort by_avg_desc rs" ..
    with assms have "\<forall>r \<in> set rs. avg r \<noteq> NaN" by (simp add: set_js_sort)
    then show ?thesis by (simp add: rs sorted_wrt_map js_sort_desc)
  qed
qed

text \<open>
  Claim C2. Every record is to have numeric fields, with \<open>avg\<close> defaulting to 0 when the
  source field cannot be parsed. In the response below the second average is the string
  \<^verbatim>\<open>.---\<close>: it is truthy, so \<^verbatim>\<open>stats.avg || stats.battingAverage || 0\<close> keeps it, and
  \<^verbatim>\<open>parseFloat\<close> makes it \<^verbatim>\<open>NaN\<close>, not 0.
\<close>

theorem extractBattingData_unparsable_avg:
  "extractBattingData placeholder_avg_response =
     [\<lparr>pid = JNum (Fin 1), name = JStr ''A'', team = JStr ''Boston Red Sox'', avg = Fin 0.2,
       atBats = Fin 10, hits = Fin 0, homeRuns = Fin 0, rbi = Fin 0\<rparr>,
      \<lparr>pid = JNum (Fin 2), name = JStr ''B'', team = JStr ''Chicago Cubs'', avg = NaN,
       atBats = Fin 0, hits = Fin 0, homeRuns = Fin 0, rbi = Fin 0\<rparr>,
      \<lparr>pid = JNum (Fin 3), name = JStr ''C'', team = JStr ''Detroit Tigers'', avg = Fin 0.3,
       atBats = Fin 10, hits = Fin 0, homeRuns = Fin 0, rbi = Fin 0\<rparr>]"
  by (simp add: placeholder_avg_response_def extract_eval parse_eval)

text \<open>
  Claim C3. The records returned are to be in non-increasing order of \<open>avg\<close> for every
  payload of a recognized shape. For the same response every comparison with the
  \<^verbatim>\<open>NaN\<close> average is \<^verbatim>\<open>NaN\<close>, the sort moves nothing, and the average 0.2 stays before
  the average 0.3. No arrangement of a \<^verbatim>\<open>NaN\<close> and a number is in order either.
\<close>

theorem extractBattingData_not_sorted:
  "map avg (extractBattingData placeholder_avg_response) = [Fin 0.2, NaN, Fin 0.3]
   \<and> \<not> sorted_wrt js_ge [Fin 0.2, NaN, Fin 0.3]
   \<and> js_lt (Fin 0.2) (Fin 0.3)
   \<and> \<not> sorted_wrt js_ge [NaN, Fin 0.3] \<and> \<not> sorted_wrt js_ge [Fin 0.3, NaN]"
  by (simp add: placeholder_avg_response_def extract_eval parse_eval js_ge_def)

section \<open>The summary panel\<close>

subsection \<open>Rounding\<close>










subsection \<open>The league average\<close>






subsection \<open>The best and the worst batter\<close>





subsection \<open>The summary\<close>







section \<open>A payload of neither shape\<close>

lemma is_hitting_iff: "is_hitting x = Inr b \<Longrightarrow> b = hitting_group x"
  by (auto simp: is_hitting_def hitting_group_def get_def rbind_def
      split: if_splits jsval.splits option.splits)

lemma find_r_find:
  "find_r is_hitting xs = Inr h \<Longrightarrow> truthy h \<Longrightarrow> find hitting_group xs = Some h"
proof (induction xs)
  case Nil
  then show ?case by simp
next
  case (Cons x xs)
  then show ?case
    by (auto simp: rbind_def split: sum.splits if_splits dest: is_hitting_iff)
qed

lemma js_gt0_length: "js_gt0 (JNum (Fin (real n))) = (0 < n)"
  by (simp add: js_gt0_def js_gt_def)

lemma api_branch_shape:
  assumes "api_branch d = Inr (Some rs)"
  shows "api_shape d"
proof -
  from assms obtain xs where xs: "read_prop d ''stats'' = JArr xs"
    by (auto simp: api_branch_def get_def rbind_def split: if_splits jsval.splits sum.splits)
  from assms xs obtain h where h: "find_r is_hitting xs = Inr h" and th: "truthy h"
    and sp: "\<exists>ss. read_prop h ''splits'' = JArr ss \<and> js_gt0 (read_prop (JArr ss) ''length'')"
    by (auto simp: api_branch_def get_def rbind_def split: if_splits jsval.splits sum.splits)
  from sp obtain ss where ss: "read_prop h ''splits'' = JArr ss" and "ss \<noteq> []"
    by (auto simp: js_gt0_length)
  then have "has_splits h" by (cases ss) (auto simp: has_splits_def)
  with find_r_find [OF h th] xs show ?thesis by (simp add: api_shape_def)
qed

lemma extract_neither:
  assumes "\<not> api_shape d" and "\<not> flat_shape d"
  shows "extractBattingData d = []"
proof (cases "api_branch d")
  case (Inl e)
  then show ?thesis by (simp add: extractBattingData_def extract_try_def rbind_def)
next
  case (Inr r)
  with assms(1) have r: "r = None" using api_branch_shape by (cases r) auto
  have "flat_branch d = Inl (Error ''Could not extract batting data from response'')"
    using assms(2) by (auto simp: flat_branch_def flat_shape_def split: jsval.splits)
  then show ?thesis using Inr r by (simp add: extractBattingData_def extract_try_def rbind_def)
qed

lemma updateVisualization_empty:
  "updateVisualization [] (showLoading v) =
     v\<lparr>vdata := Some [], originalBackgroundColors := Some [], originalBorderColors := Some [],
       chart := Some \<lparr>labels = [], chart_data = [], backgroundColor = [], borderColor = [],
                      visData = []\<rparr>,
       container := [Canvas, TeamLegend [], PlayersTable []]\<rparr>"
  by (simp add: updateVisualization_def showLoading_def addTeamLegend_def addPlayerTable_def
      legend_entries_def)

text \<open>
  Claim C1, amended. For a payload of neither shape \<^verbatim>\<open>extractBattingData\<close> catches its
  own error and returns the empty list. When such a payload comes from the network
  (with rows, so that the client does not replace it by the mock data), the
  controller's \<^verbatim>\<open>try\<close> block runs to its end: the visualizer holds a chart without
  bars, an empty legend and an empty table, the summary panel says that no batting data
  is available, and no error message is rendered.
\<close>

theorem unrecognized_payload_renders_no_data:
  "(\<not> api_shape d \<and> \<not> flat_shape d \<longrightarrow> extractBattingData d = [])
   \<and> (\<not> api_shape d \<and> \<not> flat_shape d \<and> \<not> no_rows d \<longrightarrow>
        fetchAndVisualizeData (Response True (Some d)) season pg =
          Some (pg\<lparr>loading_hidden := True,
                   stats_info := NoData,
                   vis := (vis pg)\<lparr>vdata := Some [], originalBackgroundColors := Some [],
                            originalBorderColors := Some [],
                            chart := Some \<lparr>labels = [], chart_data = [], backgroundColor = [],
                                           borderColor = [], visData = []\<rparr>,
                            container := [Canvas, TeamLegend [], PlayersTable []]\<rparr>\<rparr>))"
proof (intro conjI impI)
  assume "\<not> api_shape d \<and> \<not> flat_shape d"
  then show "extractBattingData d = []" by (simp add: extract_neither)
next
  assume a: "\<not> api_shape d \<and> \<not> flat_shape d \<and> \<not> no_rows d"
  then have e: "extractBattingData d = []" by (simp add: extract_neither)
  have g: "getPlayerBattingStats (Response True (Some d)) season = Inr d"
    using a by (simp add: getPlayerBattingStats_def fetchData_def rbind_def)
  show "fetchAndVisualizeData (Response True (Some d)) season pg =
          Some (pg\<lparr>loading_hidden := True,
                   stats_info := NoData,
                   vis := (vis pg)\<lparr>vdata := Some [], originalBackgroundColors := Some [],
                            originalBorderColors := Some [],
                            chart := Some \<lparr>labels = [], chart_data = [], backgroundColor = [],
                                           borderColor = [], visData = []\<rparr>,
                            container := [Canvas, TeamLegend [], PlayersTable []]\<rparr>\<rparr>)"
    by (simp add: fetchAndVisualizeData_def g e toggleLoading_def updateVisualization_empty
        updateStatsInfo_def)
qed

lemmas shape_eval = api_shape_def flat_shape_def hitting_group_def has_splits_def no_rows_def

text \<open>
  Claim C1, as stated: a payload of neither shape makes normalization fail, the failure
  reaches the controller, and the controller renders an error message instead of a
  chart. For the response below the controller ends with a chart and without an error
  message in the container.
\<close>

theorem unrecognized_payload_no_error_message:
  "\<not> api_shape unnamed_group_response \<and> \<not> flat_shape unnamed_group_response
   \<and> extractBattingData unnamed_group_response = []
   \<and> fetchAndVisualizeData (Response True (Some unnamed_group_response)) (JStr ''2025'') initial_page
       = Some \<lparr>vis = \<lparr>vdata = Some [],
                       chart = Some \<lparr>labels = [], chart_data = [], backgroundColor = [],
                                      borderColor = [], visData = []\<rparr>,
                       originalBackgroundColors = Some [], originalBorderColors = Some [],
                       container = [Canvas, TeamLegend [], PlayersTable []]\<rparr>,
               stats_info = NoData, loading_hidden = True\<rparr>"
  by (simp add: unnamed_group_response_def initial_page_def new_visualizer_def shape_eval
      extract_eval fetchAndVisualizeData_def getPlayerBattingStats_def fetchData_def
      toggleLoading_def updateVisualization_empty updateStatsInfo_def)

theorem unrecognized_payload_renders_no_data_witness:
  "\<not> api_shape unnamed_group_response \<and> \<not> flat_shape unnamed_group_response
   \<and> \<not> no_rows unnamed_group_response
   \<and> extractBattingData unnamed_group_response = []
   \<and> (\<exists>pg. fetchAndVisualizeData (Response True (Some unnamed_group_response)) (JStr ''2025'')
              initial_page = Some pg
         \<and> stats_info pg = NoData \<and> container (vis pg) = [Canvas, TeamLegend [], PlayersTable []])"
proof -
  have h: "\<not> api_shape unnamed_group_response \<and> \<not> flat_shape unnamed_group_response
           \<and> \<not> no_rows unnamed_group_response"
    by (simp add: unnamed_group_response_def shape_eval)
  show ?thesis
    using h unrecognized_payload_renders_no_data
      [of unnamed_group_response "JStr ''2025''" initial_page]
    by simp
qed

section \<open>Clearing the visualizer\<close>

lemma chart_clearObjects: "chart (clearObjects v) = None"
  by (simp add: clearObjects_def split: option.splits)

lemma remove_other_id:
  "i \<noteq> j \<Longrightarrow> (j \<in> element_id ` set (remove_by_id i es)) = (j \<in> element_id ` set es)"
  by (induction es) auto

lemma has_legend_clearObjects: "has_legend (clearObjects v) = has_legend v"
  by (simp add: clearObjects_def has_legend_def remove_other_id split: option.splits)

text \<open>In the Rendered state the chart is released and the legend is still there.\<close>

lemma clearObjects_rendered:
  "rendered v \<Longrightarrow> chart (clearObjects v) = None \<and> has_legend (clearObjects v)"
  by (simp add: rendered_def chart_clearObjects has_legend_clearObjects)

text \<open>
  Claim C8. In the Rendered state \<^verbatim>\<open>clearObjects\<close> is to release the chart and to remove
  the team legend. \<^verbatim>\<open>addTeamLegend\<close> gives the legend the id \<^verbatim>\<open>team-legend\<close>, and
  \<^verbatim>\<open>clearObjects\<close> looks for the id \<^verbatim>\<open>custom-legend\<close>: the chart is released, the legend
  stays in the container.
\<close>

theorem clearObjects_keeps_team_legend:
  "chart (updateVisualization
            [\<lparr>pid = JNum (Fin 1), name = ''A'', team = ''Boston Red Sox'', avg = Fin 0.25,
              atBats = Fin 4, hits = Fin 1, homeRuns = Fin 0, rbi = Fin 0\<rparr>] new_visualizer)
     \<noteq> None
   \<and> container (updateVisualization
            [\<lparr>pid = JNum (Fin 1), name = ''A'', team = ''Boston Red Sox'', avg = Fin 0.25,
              atBats = Fin 4, hits = Fin 1, homeRuns = Fin 0, rbi = Fin 0\<rparr>] new_visualizer)
     = [Canvas, TeamLegend [(''Boston Red Sox'', Some ''#BD3039'')],
        PlayersTable [\<lparr>pid = JNum (Fin 1), name = ''A'', team = ''Boston Red Sox'',
                       avg = Fin 0.25, atBats = Fin 4, hits = Fin 1, homeRuns = Fin 0,
                       rbi = Fin 0\<rparr>]]
   \<and> chart (clearObjects (updateVisualization
            [\<lparr>pid = JNum (Fin 1), name = ''A'', team = ''Boston Red Sox'', avg = Fin 0.25,
              atBats = Fin 4, hits = Fin 1, homeRuns = Fin 0, rbi = Fin 0\<rparr>] new_visualizer))
     = None
   \<and> container (clearObjects (updateVisualization
            [\<lparr>pid = JNum (Fin 1), name = ''A'', team = ''Boston Red Sox'', avg = Fin 0.25,
              atBats = Fin 4, hits = Fin 1, homeRuns = Fin 0, rbi = Fin 0\<rparr>] new_visualizer))
     = [Canvas, TeamLegend [(''Boston Red Sox'', Some ''#BD3039'')],
        PlayersTable [\<lparr>pid = JNum (Fin 1), name = ''A'', team = ''Boston Red Sox'',
                       avg = Fin 0.25, atBats = Fin 4, hits = Fin 1, homeRuns = Fin 0,
                       rbi = Fin 0\<rparr>]]"
  by (simp add: updateVisualization_def addTeamLegend_def addPlayerTable_def legend_entries_def
      new_visualizer_def clearObjects_def Let_def getTeamColor_def getTeamColors_def table_get_def
      MLB_TEAM_COLORS_def)

section \<open>The fallback data\<close>

lemma mock_season:
  "getMockBattingStats (js_or season (JNum (Fin 2025))) = getMockBattingStats season"
  by (simp add: getMockBattingStats_def js_or_def)

lemma parseInt_count: "n < 10 ^ 21 \<Longrightarrow> parseInt_num (Fin (real n)) = Fin (real n)"
proof -
  assume a: "n < 10 ^ 21"
  have "real n < 10 ^ 21" using a by (metis of_nat_less_iff of_nat_numeral of_nat_power)
  moreover have "n \<noteq> 0 \<Longrightarrow> 1 / 10 ^ 6 \<le> real n"
  proof -
    assume "n \<noteq> 0"
    then have "1 \<le> real n" by simp
    moreover have "(1::real) / 10 ^ 6 \<le> 1" by simp
    ultimately show ?thesis by linarith
  qed
  ultimately show ?thesis by (auto simp: parseInt_num_def)
qed

lemma map_flat_mock_player:
  assumes "ab < 10 ^ 21" "h < 10 ^ 21" "hr < 10 ^ 21" "r < 10 ^ 21"
  shows "map_flat (mock_player i n t a ab h hr r) = Inr (mock_record i n t a ab h hr r)"
  using assms
  by (simp add: map_flat_def mock_player_def mock_record_def get_def rbind_def parseInt_count)

lemma record_shape_mock:
  "0 \<le> a \<Longrightarrow> a \<le> 1 \<Longrightarrow> record_shape (mock_record i n t a ab h hr r)"
  by (simp add: record_shape_def mock_record_def as_string_def is_average_def is_count_def)

lemma avg_mock_record: "avg (mock_record i n t a ab h hr r) = Fin a"
  by (simp add: mock_record_def)

lemma rmap_all:
  "rmap f xs = Inr ys \<Longrightarrow> length ys = length xs \<and> (\<forall>y \<in> set ys. \<exists>x \<in> set xs. f x = Inr y)"
proof (induction xs arbitrary: ys)
  case Nil
  then show ?case by simp
next
  case (Cons x xs)
  then show ?case by (auto simp: rbind_def split: sum.splits)
qed

lemma rmap_total:
  "\<forall>x \<in> set xs. \<exists>y. f x = Inr y \<Longrightarrow> \<exists>ys. rmap f xs = Inr ys"
proof (induction xs)
  case Nil
  then show ?case by simp
next
  case (Cons x xs)
  then show ?case by (auto simp: rbind_def)
qed

lemma mock_players_mapped:
  "\<forall>x \<in> set mock_players. \<exists>y. map_flat x = Inr y \<and> record_shape y \<and> in_band (avg y)"
  unfolding mock_players_def
  by (simp add: map_flat_mock_player record_shape_mock avg_mock_record in_band_def)

lemma length_mock_players: "length mock_players = 30"
  by (simp add: mock_players_def)

lemma extract_mock:
  "\<exists>rs. rmap map_flat mock_players = Inr rs
      \<and> extractBattingData (getMockBattingStats season) = js_sort by_avg_desc rs"
proof -
  from mock_players_mapped have "\<forall>x \<in> set mock_players. \<exists>y. map_flat x = Inr y" by blast
  then obtain rs where rs: "rmap map_flat mock_players = Inr rs" using rmap_total by blast
  have "extractBattingData (getMockBattingStats season) = js_sort by_avg_desc rs"
    by (simp add: extractBattingData_def extract_try_def api_branch_def flat_branch_def
        getMockBattingStats_def get_def rbind_def rs)
  with rs show ?thesis by blast
qed

text \<open>
  Claim C4. When the transport rejects, the status is not a success, the body is not
  JSON, or the response has no rows, \<^verbatim>\<open>getPlayerBattingStats\<close> does not throw: it
  resolves with the mock data. The mock data hold exactly 30 objects; normalizing them
  gives 30 records, each of the PlayerRecord shape and with an average in
  \<open>[0.260, 0.330]\<close>.
\<close>

theorem getPlayerBattingStats_fallback:
  assumes "f = Rejected \<or> (\<exists>body. f = Response False body) \<or> f = Response True None
           \<or> (\<exists>d. f = Response True (Some d) \<and> no_rows d)"
  shows "getPlayerBattingStats f season = Inr (getMockBattingStats season)
     \<and> read_prop (getMockBattingStats season) ''playerBattingStats'' = JArr mock_players
     \<and> length mock_players = 30
     \<and> length (extractBattingData (getMockBattingStats season)) = 30
     \<and> (\<forall>r \<in> set (extractBattingData (getMockBattingStats season)).
           in_band (avg r) \<and> record_shape r)"
proof -
  have g: "getPlayerBattingStats f season = Inr (getMockBattingStats season)"
    using assms
    by (auto simp: getPlayerBattingStats_def fetchData_def rbind_def mock_season Let_def)
  have p: "read_prop (getMockBattingStats season) ''playerBattingStats'' = JArr mock_players"
    by (simp add: getMockBattingStats_def)
  from extract_mock [of season] obtain rs where rs: "rmap map_flat mock_players = Inr rs"
    and e: "extractBattingData (getMockBattingStats season) = js_sort by_avg_desc rs"
    by blast
  from rmap_all [OF rs] have l: "length rs = length mock_players"
    and m: "\<forall>y \<in> set rs. \<exists>x \<in> set mock_players. map_flat x = Inr y" by blast+
  have q: "\<forall>y \<in> set rs. in_band (avg y) \<and> record_shape y"
  proof
    fix y assume "y \<in> set rs"
    with m obtain x where x: "x \<in> set mock_players" and xy: "map_flat x = Inr y" by blast
    from mock_players_mapped x obtain y' where "map_flat x = Inr y'"
      and "record_shape y'" and "in_band (avg y')" by blast
    with xy show "in_band (avg y) \<and> record_shape y" by simp
  qed
  show ?thesis
    using g p l q by (simp add: e length_js_sort set_js_sort length_mock_players)
qed

theorem getPlayerBattingStats_fallback_witness:
  "no_rows (JObj [(''stats'', JArr [JObj [(''splits'', JArr [])]])])
   \<and> getPlayerBattingStats (Response True (Some (JObj [(''stats'', JArr [JObj [(''splits'', JArr [])]])])))
         (JStr ''2025'') = Inr (getMockBattingStats (JStr ''2025''))
   \<and> getPlayerBattingStats Rejected (JStr ''2025'') = Inr (getMockBattingStats (JStr ''2025''))
   \<and> getPlayerBattingStats (Response False None) (JStr ''2025'')
         = Inr (getMockBattingStats (JStr ''2025''))
   \<and> length (extractBattingData (getMockBattingStats (JStr ''2025''))) = 30
   \<and> list_all (\<lambda>r. in_band (avg r) \<and> record_shape r)
         (extractBattingData (getMockBattingStats (JStr ''2025'')))"
proof -
  have h: "no_rows (JObj [(''stats'', JArr [JObj [(''splits'', JArr [])]])])"
    by (simp add: no_rows_def)
  show ?thesis
    using h
      getPlayerBattingStats_fallback
        [of "Response True (Some (JObj [(''stats'', JArr [JObj [(''splits'', JArr [])]])]))"
            "JStr ''2025''"]
      getPlayerBattingStats_fallback [of Rejected "JStr ''2025''"]
      getPlayerBattingStats_fallback [of "Response False None" "JStr ''2025''"]
    by (simp add: list_all_iff)
qed

section \<open>Hovering\<close>

lemma highlight_loop_defined:
  assumes "length obg = i + length ps" and "length obd = i + length ps"
    and "length nbg = length obg" and "length nbd = length obd"
    and "\<forall>c \<in> set (drop i obg). c \<noteq> None" and "\<forall>c \<in> set (drop i obd). c \<noteq> None"
  shows "highlight_loop t obg obd ps i (nbg, nbd) =
           Inr (take i nbg @ map2 (shade t) ps (drop i obg),
                take i nbd @ map2 (shade t) ps (drop i obd))"
  using assms
proof (induction ps arbitrary: i nbg nbd)
  case Nil
  then show ?case by simp
next
  case (Cons p ps)
  from Cons.prems have ig: "i < length obg" and id: "i < length obd" by simp_all
  from Cons.prems ig id have ing: "i < length nbg" and ind: "i < length nbd" by simp_all
  have dg: "drop i obg = obg ! i # drop (Suc i) obg" using ig by (simp add: Cons_nth_drop_Suc)
  have dd: "drop i obd = obd ! i # drop (Suc i) obd" using id by (simp add: Cons_nth_drop_Suc)
  from Cons.prems(5) dg obtain cg where cg: "obg ! i = Some cg" by (cases "obg ! i") auto
  from Cons.prems(6) dd obtain cd where cd: "obd ! i = Some cd" by (cases "obd ! i") auto
  have rest: "\<forall>c \<in> set (drop (Suc i) obg). c \<noteq> None" "\<forall>c \<in> set (drop (Suc i) obd). c \<noteq> None"
    using Cons.prems(5,6) dg dd by (metis list.set_intros(2))+
  have lens: "length obg = Suc i + length ps" "length obd = Suc i + length ps"
    using Cons.prems by simp_all
  have tk: "take (Suc i) (xs[i := x]) = take i xs @ [x]" if "i < length xs" for xs :: "string option list" and x
    using that by (simp add: take_Suc_conv_app_nth)
  define xg where "xg = shade t p (obg ! i)"
  define xd where "xd = shade t p (obd ! i)"
  have step: "highlight_loop t obg obd (p # ps) i (nbg, nbd) =
                highlight_loop t obg obd ps (Suc i) (nbg[i := xg], nbd[i := xd])"
    using ig id ing ind cg cd
    by (simp add: read_at_def write_at_def fade_def rbind_def shade_def xg_def xd_def)
  have "highlight_loop t obg obd ps (Suc i) (nbg[i := xg], nbd[i := xd]) =
          Inr (take (Suc i) (nbg[i := xg]) @ map2 (shade t) ps (drop (Suc i) obg),
               take (Suc i) (nbd[i := xd]) @ map2 (shade t) ps (drop (Suc i) obd))"
    using Cons.IH [of "Suc i" "nbg[i := xg]" "nbd[i := xd]"] lens Cons.prems(3,4) rest by simp
  then show ?case
    using step ing ind by (simp add: tk dg dd xg_def xd_def)
qed

lemma highlightTeam_defined:
  assumes "chart v = Some c" and "originalBackgroundColors v = Some obg"
    and "originalBorderColors v = Some obd"
    and "length obg = length players" and "length obd = length players"
    and "None \<notin> set obg" and "None \<notin> set obd"
  shows "highlightTeam t players v =
           Inr (v\<lparr>chart := Some (c\<lparr>backgroundColor := map2 (shade t) players obg,
                                   borderColor := map2 (shade t) players obd\<rparr>)\<rparr>)"
proof -
  have "highlight_loop t obg obd players 0 (obg, obd) =
          Inr (take 0 obg @ map2 (shade t) players (drop 0 obg),
               take 0 obd @ map2 (shade t) players (drop 0 obd))"
  proof (intro highlight_loop_defined)
    show "\<forall>c \<in> set (drop 0 obg). c \<noteq> None" using assms(6) by (metis drop0)
    show "\<forall>c \<in> set (drop 0 obd). c \<noteq> None" using assms(7) by (metis drop0)
  qed (use assms in simp_all)
  then show ?thesis using assms(1-3) by (simp add: highlightTeam_def rbind_def)
qed

lemma resetBarColors_restores:
  assumes "chart v = Some c" and "originalBackgroundColors v = Some obg"
    and "originalBorderColors v = Some obd"
  shows "resetBarColors v = Inr (v\<lparr>chart := Some (c\<lparr>backgroundColor := obg, borderColor := obd\<rparr>)\<rparr>)"
  using assms by (simp add: resetBarColors_def)

text \<open>
  Claim C6. For every displayed list and every hovered team the highlight is to set the
  bars of the team to their original colour and the others to a tint of their original
  colour. With a displayed team named \<^verbatim>\<open>constructor\<close> the original colour of its bar is
  \<^verbatim>\<open>undefined\<close>; hovering a bar of another team calls \<^verbatim>\<open>fadeColor(undefined)\<close>, and the
  handler throws before any colour is set.
\<close>

theorem highlightTeam_inherited_name_throws:
  "originalBackgroundColors (updateVisualization
      [\<lparr>pid = JNum (Fin 1), name = ''A'', team = ''Boston Red Sox'', avg = Fin 0.5,
        atBats = Fin 4, hits = Fin 2, homeRuns = Fin 0, rbi = Fin 0\<rparr>,
       \<lparr>pid = JNum (Fin 2), name = ''B'', team = ''constructor'', avg = Fin 0.25,
        atBats = Fin 4, hits = Fin 1, homeRuns = Fin 0, rbi = Fin 0\<rparr>] new_visualizer)
     = Some [Some ''#BD3039'', None]
   \<and> onHover [0] (updateVisualization
      [\<lparr>pid = JNum (Fin 1), name = ''A'', team = ''Boston Red Sox'', avg = Fin 0.5,
        atBats = Fin 4, hits = Fin 2, homeRuns = Fin 0, rbi = Fin 0\<rparr>,
       \<lparr>pid = JNum (Fin 2), name = ''B'', team = ''constructor'', avg = Fin 0.25,
        atBats = Fin 4, hits = Fin 1, homeRuns = Fin 0, rbi = Fin 0\<rparr>] new_visualizer)
     = Inl TypeError"
  by (simp add: updateVisualization_def addTeamLegend_def addPlayerTable_def legend_entries_def
      new_visualizer_def Let_def getTeamColor_def getTeamSecondaryColor_def getTeamColors_def
      table_get_def MLB_TEAM_COLORS_def object_prototype_names_def by_avg_desc_def js_sub_def
      js_gt_def onHover_def resetBarColors_def highlightTeam_def rbind_def read_at_def
      write_at_def fade_def)

lemma map2_same: "map2 f xs (map g xs) = map (\<lambda>x. f x (g x)) xs"
  by (induction xs) auto

text \<open>
  Where no displayed team bears an inherited name: hovering bar \<open>i\<close> colours the bars as
  the specification says, whatever colours the chart showed before, and leaving the
  chart restores the original colours.
\<close>

lemma hover_highlights_team:
  fixes data :: "string player_record list"
  defines "vd \<equiv> js_sort by_avg_desc (take 30 data)"
  assumes ok: "\<forall>p \<in> set data. team p \<notin> set object_prototype_names"
    and v: "chart v = Some c" "visData c = vd"
      "originalBackgroundColors v = Some (map (\<lambda>p. getTeamColor (team p)) vd)"
      "originalBorderColors v = Some (map (\<lambda>p. getTeamSecondaryColor (team p)) vd)"
    and i: "i < length vd"
  shows "onHover [i] v =
           Inr (v\<lparr>chart := Some (c\<lparr>backgroundColor :=
                                      map (\<lambda>p. shade (team (vd ! i)) p (getTeamColor (team p))) vd,
                                    borderColor :=
                                      map (\<lambda>p. shade (team (vd ! i)) p (getTeamSecondaryColor (team p))) vd\<rparr>)\<rparr>)"
proof -
  let ?bg = "map (\<lambda>p. getTeamColor (team p)) vd"
  let ?bd = "map (\<lambda>p. getTeamSecondaryColor (team p)) vd"
  have sub: "set vd \<subseteq> set data"
    unfolding vd_def by (auto simp: set_js_sort dest: in_set_takeD)
  have nb: "None \<notin> set ?bg"
  proof
    assume "None \<in> set ?bg"
    then obtain p where "p \<in> set vd" and "getTeamColor (team p) = None" by auto
    with sub ok getTeamColor_defined [of "team p"] show False by auto
  qed
  have nd: "None \<notin> set ?bd"
  proof
    assume "None \<in> set ?bd"
    then obtain p where "p \<in> set vd" and "getTeamSecondaryColor (team p) = None" by auto
    with sub ok getTeamSecondaryColor_defined [of "team p"] show False by auto
  qed
  let ?c1 = "c\<lparr>backgroundColor := ?bg, borderColor := ?bd\<rparr>"
  let ?v1 = "v\<lparr>chart := Some ?c1\<rparr>"
  have r: "resetBarColors v = Inr ?v1" using v by (simp add: resetBarColors_def)
  have h: "highlightTeam (team (vd ! i)) vd ?v1 =
             Inr (?v1\<lparr>chart := Some (?c1\<lparr>backgroundColor := map2 (shade (team (vd ! i))) vd ?bg,
                                           borderColor := map2 (shade (team (vd ! i))) vd ?bd\<rparr>)\<rparr>)"
    using v nb nd by (intro highlightTeam_defined) simp_all
  show ?thesis
    using r h i v(2) by (simp add: onHover_def rbind_def map2_same)
qed

end
